theory Spec2Isabelle
  imports Complex_Main "HOL-Library.Log_Nat"
begin

section \<open>The ground layers of Knight Dreams (src/game/groundlayer.ts)\<close>

text \<open>
  A shallow embedding of the class \<open>GroundLayer\<close>. Numbers that the code keeps integral
  (heights, timers, tile indices) are \<open>int\<close>; the results of \<open>Math.random()\<close> are
  \<open>real\<close>; the pixel arithmetic of the collision probe is binary64 arithmetic. An array is a map from indices to values, since a JavaScript array is an
  object with index keys: a read of an index that was never written is \<open>undefined\<close>
  (\<open>None\<close> of the map) and a write at any index adds that key.
\<close>

subsection \<open>Constants and enumerations\<close>

definition BASE_SHIFT_X :: int where "BASE_SHIFT_X = 2"

definition SLOPE_WAIT_MIN :: int where "SLOPE_WAIT_MIN = 2"
definition SLOPE_WAIT_MAX :: int where "SLOPE_WAIT_MAX = 12"

definition DECORATION_WAIT_MIN :: int where "DECORATION_WAIT_MIN = 8"
definition DECORATION_WAIT_MAX :: int where "DECORATION_WAIT_MAX = 16"

text \<open>\<open>TileType.None = 0\<close>, \<open>Surface = 1\<close>, \<open>Bridge = 2\<close>.\<close>

datatype TileType = Tile_None | Surface | Bridge

text \<open>\<open>SlopeDirection.Up = -1\<close>, \<open>None = 0\<close>, \<open>Down = 1\<close>; the code computes with these
  numbers, which \<open>slopeNum\<close> gives back.\<close>

datatype SlopeDirection = Up | Slope_None | Down

fun slopeNum :: "SlopeDirection \<Rightarrow> int" where
  "slopeNum Up = -1"
| "slopeNum Slope_None = 0"
| "slopeNum Down = 1"

text \<open>\<open>this.activeSlope *= -1\<close>\<close>

fun slopeNeg :: "SlopeDirection \<Rightarrow> SlopeDirection" where
  "slopeNeg Up = Down"
| "slopeNeg Slope_None = Slope_None"
| "slopeNeg Down = Up"

datatype Decoration = Deco_None | Palmtree

datatype GroundLayerType = Foreground | Background

text \<open>The tables \<open>MIN_HEIGHT = [1, 2]\<close> and \<open>MAX_HEIGHT = [5, 4]\<close>, indexed by the layer type.\<close>

fun MIN_HEIGHT :: "GroundLayerType \<Rightarrow> int" where
  "MIN_HEIGHT Foreground = 1"
| "MIN_HEIGHT Background = 2"

fun MAX_HEIGHT :: "GroundLayerType \<Rightarrow> int" where
  "MAX_HEIGHT Foreground = 5"
| "MAX_HEIGHT Background = 4"

subsection \<open>The random source and the helpers of common/math\<close>

text \<open>
  The random source is the sequence of the results that the coming calls of
  \<open>Math.random()\<close> return, each in \<open>[0, 1)\<close>. A call takes the first and leaves the rest.
\<close>

type_synonym rng = "nat \<Rightarrow> real"

definition random :: "rng \<Rightarrow> real \<times> rng" where
  "random g = (g 0, \<lambda>n. g (Suc n))"

definition unitDraws :: "rng \<Rightarrow> bool" where
  "unitDraws g \<longleftrightarrow> (\<forall>n. 0 \<le> g n \<and> g n < 1)"

text \<open>
  Modelled from the spec: \<open>sampleUniform\<close> of common/math is not among the sources. The spec
  calls it a uniform draw from the integers of a closed range (\<open>uniform(2,12)\<close>, "uniformly
  from {1,2}") that always returns a value; it is one call of \<open>Math.random()\<close> scaled to
  the \<open>max - min + 1\<close> integers from \<open>min\<close>.
\<close>

definition sampleUniform :: "int \<Rightarrow> int \<Rightarrow> rng \<Rightarrow> int \<times> rng" where
  "sampleUniform mn mx g =
     (let (r, g') = random g in (mn + \<lfloor>r * of_int (mx - mn + 1)\<rfloor>, g'))"

text \<open>
  Modelled from the spec: \<open>clamp\<close> of common/math is not among the sources. The spec has the
  slope rejected when the projected height "would leave height outside the valid range", so
  \<open>clamp x min max\<close> is \<open>x\<close> brought into \<open>[min, max]\<close>.
\<close>

definition clamp :: "int \<Rightarrow> int \<Rightarrow> int \<Rightarrow> int" where
  "clamp x mn mx = max mn (min x mx)"

subsection \<open>The layer object\<close>

type_synonym addr = nat

record GroundLayer =
  height :: "int \<rightharpoonup> int"
  slope :: "int \<rightharpoonup> SlopeDirection"
  type :: "int \<rightharpoonup> TileType"
  decorations :: "int \<rightharpoonup> Decoration"
  activeHeight :: int
  activeType :: TileType
  typeWait :: int
  slopeWait :: int
  slopeDuration :: int
  activeSlope :: SlopeDirection
  lastSlope :: SlopeDirection
  gapTimer :: int
  decorationWait :: int
  ref :: "addr option"
  layerType :: GroundLayerType
  width :: int
  shift :: int

text \<open>
  Layers are objects that refer to each other through \<open>ref\<close>: the store gives the object
  at each address. A method runs on the object \<open>this\<close> at address \<open>a\<close>; \<open>this.ref\<close> read
  in the middle of a method is the stored object, or \<open>this\<close> as it is at that moment
  when the layer refers to itself.
\<close>

type_synonym store = "addr \<Rightarrow> GroundLayer"

definition refObj :: "store \<Rightarrow> addr \<Rightarrow> GroundLayer \<Rightarrow> GroundLayer option" where
  "refObj h a this =
     (case ref this of
        None \<Rightarrow> None
      | Some r \<Rightarrow> Some (if r = a then this else h r))"

datatype error = RangeError

text \<open>
  \<open>new Array(width)\<close> throws a RangeError unless \<open>width\<close> is an integer from 0 to
  \<open>2^32 - 1\<close>; \<open>fill\<close> then sets the indices below \<open>width\<close>.
\<close>

definition newArrayFill :: "int \<Rightarrow> 'a \<Rightarrow> error + (int \<rightharpoonup> 'a)" where
  "newArrayFill n v =
     (if n < 0 \<or> 2 ^ 32 \<le> n then Inl RangeError
      else Inr (\<lambda>i. if 0 \<le> i \<and> i < n then Some v else None))"

fun INITIAL_HEIGHT :: "GroundLayerType \<Rightarrow> int" where
  "INITIAL_HEIGHT Foreground = 2"
| "INITIAL_HEIGHT Background = 0"

fun INITIAL_TYPE :: "GroundLayerType \<Rightarrow> TileType" where
  "INITIAL_TYPE Foreground = Surface"
| "INITIAL_TYPE Background = Tile_None"

definition constructor :: "int \<Rightarrow> GroundLayerType \<Rightarrow> int \<Rightarrow> rng \<Rightarrow> error + (GroundLayer \<times> rng)" where
  "constructor w ty sh g =
     (case newArrayFill w (INITIAL_HEIGHT ty) of Inl e \<Rightarrow> Inl e | Inr hs \<Rightarrow>
     (case newArrayFill w (INITIAL_TYPE ty) of Inl e \<Rightarrow> Inl e | Inr ts \<Rightarrow>
     (case newArrayFill w Slope_None of Inl e \<Rightarrow> Inl e | Inr ss \<Rightarrow>
     (case newArrayFill w Deco_None of Inl e \<Rightarrow> Inl e | Inr ds \<Rightarrow>
        (let (sw, g1) = sampleUniform SLOPE_WAIT_MIN SLOPE_WAIT_MAX g;
             (dw, g2) = sampleUniform DECORATION_WAIT_MIN DECORATION_WAIT_MAX g1
         in Inr (\<lparr> height = hs, slope = ss, type = ts, decorations = ds,
                   activeHeight = INITIAL_HEIGHT ty, activeType = INITIAL_TYPE ty,
                   typeWait = 0, slopeWait = sw, slopeDuration = 0,
                   activeSlope = Slope_None, lastSlope = Slope_None,
                   gapTimer = 0, decorationWait = dw, ref = None,
                   layerType = ty, width = w, shift = sh \<rparr>, g2))))))"

definition getHeightRange :: "store \<Rightarrow> addr \<Rightarrow> GroundLayer \<Rightarrow> int \<times> int" where
  "getHeightRange h a this =
     (let mn = MIN_HEIGHT (layerType this);
          mx = MAX_HEIGHT (layerType this)
      in if layerType this = Background
         then (mn + (case refObj h a this of None \<Rightarrow> 0 | Some r \<Rightarrow> activeHeight r),
               mx + (case refObj h a this of None \<Rightarrow> 0 | Some r \<Rightarrow> activeHeight r))
         else (mn, mx))"

subsection \<open>The slope generator\<close>

text \<open>
  The test of the coupled rule (lines 130 to 136): the layer is on a surface, is a
  background layer, has a reference, and its height is at most 1 above the reference's
  (at most 2 when the reference is going up).
\<close>

definition coupledRule :: "store \<Rightarrow> addr \<Rightarrow> GroundLayer \<Rightarrow> bool" where
  "coupledRule h a this =
     (activeType this = Surface \<and> layerType this = Background \<and>
      (case refObj h a this of
         None \<Rightarrow> False
       | Some r \<Rightarrow>
           (let dif = activeHeight this - activeHeight r
            in (activeSlope r = Up \<and> dif \<le> 2) \<or> dif \<le> 1)))"

text \<open>The first statements of \<open>updateSlope\<close> (lines 119 to 124).\<close>

definition slopeTick :: "GroundLayer \<Rightarrow> GroundLayer" where
  "slopeTick this =
     (let l1 = this\<lparr> lastSlope := activeSlope this \<rparr>;
          l2 = l1\<lparr> slopeDuration := slopeDuration l1 - 1 \<rparr>
      in if slopeDuration l2 \<le> 0 then l2\<lparr> activeSlope := Slope_None \<rparr> else l2)"

text \<open>The body of the coupled rule (lines 138 to 145), which returns from \<open>updateSlope\<close>.\<close>

definition coupledSlope :: "GroundLayer \<Rightarrow> GroundLayer" where
  "coupledSlope this =
     (let l1 = this\<lparr> activeSlope := Up, slopeWait := 2, slopeDuration := 0 \<rparr>;
          l2 = l1\<lparr> activeHeight := activeHeight l1 - slopeNum (activeSlope l1) \<rparr>
      in l2\<lparr> typeWait := typeWait l2 + 1 \<rparr>)"

text \<open>The body of the random slope (lines 153 to 164).\<close>

definition randomSlope :: "int \<Rightarrow> int \<Rightarrow> GroundLayer \<Rightarrow> rng \<Rightarrow> GroundLayer \<times> rng" where
  "randomSlope mn mx this g =
     (let (d, g1) = sampleUniform 1 2 g;
          l1 = this\<lparr> slopeDuration := min (typeWait this - 1) d \<rparr>;
          (w, g2) = sampleUniform SLOPE_WAIT_MIN SLOPE_WAIT_MAX g1;
          l2 = l1\<lparr> slopeWait := (slopeDuration l1 - 1) + w \<rparr>;
          (r, g3) = random g2;
          l3 = l2\<lparr> activeSlope := (if r < 0.5 then Up else Down) \<rparr>;
          nextHeight = activeHeight l3 - slopeNum (activeSlope l3) * slopeDuration l3;
          l4 = (if nextHeight \<noteq> clamp nextHeight mn mx
                then l3\<lparr> activeSlope := slopeNeg (activeSlope l3) \<rparr> else l3)
      in (l4\<lparr> typeWait := typeWait l4 + 1 \<rparr>, g3))"

definition updateSlope :: "store \<Rightarrow> addr \<Rightarrow> GroundLayer \<Rightarrow> rng \<Rightarrow> GroundLayer \<times> rng" where
  "updateSlope h a this g =
     (let l = slopeTick this;
          (mn, mx) = getHeightRange h a l
      in if coupledRule h a l then (coupledSlope l, g)
         else
           (let (l', g') =
                  (if activeType l = Surface \<and> typeWait l \<ge> 2
                   then (let lw = l\<lparr> slopeWait := slopeWait l - 1 \<rparr>
                         in if slopeWait lw \<le> 0 then randomSlope mn mx lw g else (lw, g))
                   else (l, g))
            in (l'\<lparr> activeHeight := activeHeight l' - slopeNum (activeSlope l') \<rparr>, g')))"

subsection \<open>The type generator\<close>

text \<open>\<open>TYPE_WAIT_MIN = [[2, 2, 2], [4, 2, 0]]\<close> and \<open>TYPE_WAIT_MAX = [[4, 16, 6], [16, 10, 0]]\<close>,
  indexed by the layer type and then by the tile type.\<close>

fun TYPE_WAIT_MIN :: "GroundLayerType \<Rightarrow> TileType \<Rightarrow> int" where
  "TYPE_WAIT_MIN Foreground Tile_None = 2"
| "TYPE_WAIT_MIN Foreground Surface = 2"
| "TYPE_WAIT_MIN Foreground Bridge = 2"
| "TYPE_WAIT_MIN Background Tile_None = 4"
| "TYPE_WAIT_MIN Background Surface = 2"
| "TYPE_WAIT_MIN Background Bridge = 0"

fun TYPE_WAIT_MAX :: "GroundLayerType \<Rightarrow> TileType \<Rightarrow> int" where
  "TYPE_WAIT_MAX Foreground Tile_None = 4"
| "TYPE_WAIT_MAX Foreground Surface = 16"
| "TYPE_WAIT_MAX Foreground Bridge = 6"
| "TYPE_WAIT_MAX Background Tile_None = 16"
| "TYPE_WAIT_MAX Background Surface = 10"
| "TYPE_WAIT_MAX Background Bridge = 0"

definition GAP_JUMP_MAX :: int where "GAP_JUMP_MAX = 2"

fun BRIDGE_PROB :: "GroundLayerType \<Rightarrow> real" where
  "BRIDGE_PROB Foreground = 0.33"
| "BRIDGE_PROB Background = 0"

text \<open>The transition of the type (lines 190 to 231), taken when the wait has run out.\<close>

definition typeTransition :: "int \<Rightarrow> int \<Rightarrow> GroundLayer \<Rightarrow> rng \<Rightarrow> GroundLayer \<times> rng" where
  "typeTransition minHeight maxHeight this g =
     (let (l', g') =
            (if activeType this \<noteq> Surface
             then (let l1 = this\<lparr> activeType := Surface \<rparr>;
                       (l2, g1) =
                         (if layerType l1 = Background
                          then (let (v, g1) = sampleUniform minHeight maxHeight g
                                in (l1\<lparr> activeHeight := v \<rparr>, g1))
                          else (l1, g))
                   in (l2\<lparr> gapTimer := 0 \<rparr>, g1))
             else (let (r, g1) = random g;
                       l1 = this\<lparr> activeType :=
                                    (if r < BRIDGE_PROB (layerType this) then Bridge else Tile_None) \<rparr>
                   in if layerType l1 = Foreground \<and> activeType l1 = Tile_None
                      then (let mn = max minHeight (activeHeight l1 - GAP_JUMP_MAX);
                                mx = min maxHeight (activeHeight l1 + GAP_JUMP_MAX);
                                (v, g2) = sampleUniform mn mx g1
                            in (l1\<lparr> activeHeight := v \<rparr>, g2))
                      else (l1, g1)));
          (t, g'') = sampleUniform (TYPE_WAIT_MIN (layerType l') (activeType l'))
                                   (TYPE_WAIT_MAX (layerType l') (activeType l')) g'
      in (l'\<lparr> typeWait := t \<rparr>, g''))"

definition updateType :: "store \<Rightarrow> addr \<Rightarrow> GroundLayer \<Rightarrow> rng \<Rightarrow> GroundLayer \<times> rng" where
  "updateType h a this g =
     (let (minHeight, maxHeight) = getHeightRange h a this;
          l1 = (if activeType this = Tile_None
                then this\<lparr> gapTimer := gapTimer this + 1 \<rparr> else this);
          l2 = l1\<lparr> typeWait := typeWait l1 - 1 \<rparr>
      in if typeWait l2 \<le> 0 \<and> lastSlope l2 = Slope_None
         then typeTransition minHeight maxHeight l2 g
         else (l2, g))"

subsection \<open>The decoration generator\<close>

text \<open>
  The test of line 241 to 244 that rejects a placement. \<open>this.ref?.activeType\<close> of a layer
  without a reference is \<open>undefined\<close>, which is not \<open>TileType.None\<close>.
\<close>

definition decorationRejected :: "store \<Rightarrow> addr \<Rightarrow> GroundLayer \<Rightarrow> bool" where
  "decorationRejected h a this =
     (activeType this \<noteq> Surface \<or>
      activeSlope this \<noteq> Slope_None \<or>
      (layerType this = Foreground \<and>
       map_option activeType (refObj h a this) \<noteq> Some Tile_None))"

definition updateDecorations ::
  "store \<Rightarrow> addr \<Rightarrow> int \<Rightarrow> GroundLayer \<Rightarrow> rng \<Rightarrow> bool \<times> GroundLayer \<times> rng" where
  "updateDecorations h a tilePointer this g =
     (let l1 = this\<lparr> decorationWait := decorationWait this - 1 \<rparr>
      in if decorationWait l1 > 0 then (False, l1, g)
         else if decorationRejected h a l1 then (False, l1, g)
         else (let l2 = l1\<lparr> decorations := (decorations l1)(tilePointer \<mapsto> Palmtree) \<rparr>;
                   (w, g') = sampleUniform DECORATION_WAIT_MIN DECORATION_WAIT_MAX g
               in (True, l2\<lparr> decorationWait := w \<rparr>, g')))"

subsection \<open>One tile step\<close>

definition update :: "store \<Rightarrow> addr \<Rightarrow> int \<Rightarrow> GroundLayer \<Rightarrow> rng \<Rightarrow> GroundLayer \<times> rng" where
  "update h a tilePointer this g =
     (let (l1, g1) = updateSlope h a this g;
          (l2, g2) = updateType h a l1 g1;
          (placed, l3, g3) = updateDecorations h a tilePointer l2 g2;
          l4 = (if \<not> placed
                then l3\<lparr> decorations := (decorations l3)(tilePointer \<mapsto> Deco_None) \<rparr>
                else l3);
          l5 = l4\<lparr> height := (height l4)(tilePointer \<mapsto> activeHeight l4) \<rparr>;
          l6 = l5\<lparr> type := (type l5)(tilePointer \<mapsto> activeType l5) \<rparr>
      in (l6\<lparr> slope := (slope l6)(tilePointer \<mapsto> activeSlope l6) \<rparr>, g3))"

definition setReferenceLayer :: "addr \<Rightarrow> GroundLayer \<Rightarrow> GroundLayer" where
  "setReferenceLayer r this = this\<lparr> ref := Some r \<rparr>"

subsection \<open>Calls on the layers of a store\<close>

text \<open>
  The driver of the layers calls their public methods in some order; a call runs the
  method on the object at its address and stores the object back.
\<close>

datatype call = Update addr int | SetReferenceLayer addr addr

fun exec :: "call \<Rightarrow> store \<times> rng \<Rightarrow> store \<times> rng" where
  "exec (Update a tilePointer) (h, g) =
     (let (l, g') = update h a tilePointer (h a) g in (h(a := l), g'))"
| "exec (SetReferenceLayer a r) (h, g) = (h(a := setReferenceLayer r (h a)), g)"

fun run :: "call list \<Rightarrow> store \<times> rng \<Rightarrow> store \<times> rng" where
  "run [] s = s"
| "run (c # cs) s = run cs (exec c s)"

subsection \<open>The collision probe\<close>

text \<open>
  The pixel coordinates of the probe are JavaScript numbers, binary64 values: here a real,
  or \<open>None\<close> for a value that is not a finite number (\<open>NaN\<close> and the two infinities,
  which the probe never tells apart: arithmetic on them gives one of them and \<open>| 0\<close>
  gives 0).

  \<open>exponent x\<close> is the \<open>e\<close> with \<open>2^e \<le> |x| < 2^(e+1)\<close>, for \<open>x\<close> other than 0.
\<close>

type_synonym number = "real option"

definition exponent :: "real \<Rightarrow> int" where
  "exponent x =
     (if 1 \<le> \<bar>x\<bar> then bitlen \<lfloor>\<bar>x\<bar>\<rfloor> - 1 else - bitlen (\<lceil>1 / \<bar>x\<bar>\<rceil> - 1))"

text \<open>
  The result of an arithmetic operation is the exact result rounded to binary64: to the
  nearest multiple of the spacing \<open>2^(e-52)\<close> of the binary64 numbers around it (the
  spacing \<open>2^(-1074)\<close> below \<open>2^(-1022)\<close>), to the even multiple when two are equally
  near, and to an infinity when that is of magnitude \<open>2^1024\<close> or more.
\<close>

definition binary64 :: "real \<Rightarrow> number" where
  "binary64 x =
     (if x = 0 then Some 0
      else
        (let e = max (exponent x) (- 1022);
             u = 2 powi (e - 52);
             q = x / u;
             n = \<lfloor>q\<rfloor>;
             f = q - of_int n;
             m = (if f < 1/2 then n else if 1/2 < f then n + 1 else if even n then n else n + 1);
             r = of_int m * u
         in if \<bar>r\<bar> < 2 powi 1024 then Some r else None))"

text \<open>\<open>a + b\<close>, \<open>a - b\<close> and \<open>a * b\<close> of numbers, and \<open>a / d\<close> for a finite \<open>d\<close>.\<close>

definition nadd :: "number \<Rightarrow> number \<Rightarrow> number" where
  "nadd a b = (case (a, b) of (Some x, Some y) \<Rightarrow> binary64 (x + y) | _ \<Rightarrow> None)"

definition nsub :: "number \<Rightarrow> number \<Rightarrow> number" where
  "nsub a b = (case (a, b) of (Some x, Some y) \<Rightarrow> binary64 (x - y) | _ \<Rightarrow> None)"

definition nmul :: "number \<Rightarrow> number \<Rightarrow> number" where
  "nmul a b = (case (a, b) of (Some x, Some y) \<Rightarrow> binary64 (x * y) | _ \<Rightarrow> None)"

definition ndiv :: "number \<Rightarrow> real \<Rightarrow> number" where
  "ndiv a d = (case a of Some x \<Rightarrow> (if d = 0 then None else binary64 (x / d)) | None \<Rightarrow> None)"

text \<open>
  \<open>x | 0\<close> of a number: 0 when it is not finite; else the fraction is dropped and the
  integer is taken modulo \<open>2^32\<close> into the signed 32-bit range.
\<close>

definition toInt32 :: "number \<Rightarrow> int" where
  "toInt32 a =
     (case a of
        None \<Rightarrow> 0
      | Some r \<Rightarrow>
          (let n = (if r < 0 then \<lceil>r\<rceil> else \<lfloor>r\<rfloor>);
               m = n mod 2 ^ 32
           in if 2 ^ 31 \<le> m then m - 2 ^ 32 else m))"

text \<open>
  \<open>a % b\<close> on integers: \<open>NaN\<close> (here \<open>None\<close>) when \<open>b\<close> is 0, else the remainder with
  the sign of \<open>a\<close>.
\<close>

definition jsRem :: "int \<Rightarrow> int \<Rightarrow> int option" where
  "jsRem a b = (if b = 0 then None else Some (sgn a * (\<bar>a\<bar> mod \<bar>b\<bar>)))"

text \<open>
  Modelled from the spec: \<open>negMod\<close> of common/math is not among the sources. The spec has
  the probe address a circular buffer, so \<open>negMod m n\<close> is the remainder of \<open>m\<close> brought
  into \<open>[0, n)\<close>: \<open>((m % n) + n) % n\<close>.
\<close>

definition negMod :: "int \<Rightarrow> int \<Rightarrow> int option" where
  "negMod m n = (case jsRem m n of None \<Rightarrow> None | Some r \<Rightarrow> jsRem (r + n) n)"

text \<open>An array read \<open>arr[i]\<close>; at the index \<open>NaN\<close> it is \<open>undefined\<close>.\<close>

definition elemAt :: "(int \<rightharpoonup> 'a) \<Rightarrow> int option \<Rightarrow> 'a option" where
  "elemAt arr i = (case i of None \<Rightarrow> None | Some j \<Rightarrow> arr j)"

text \<open>
  One call \<open>o.floorCollision(x1, y1, x2, y2, globalSpeed, event, left, right)\<close>, the
  program event left out.
\<close>

record floorCollision =
  x1 :: number
  y1 :: number
  x2 :: number
  y2 :: number
  speed :: number
  left :: int
  right :: int

definition OFFSET :: int where "OFFSET = 2"

text \<open>
  The body of the loop of \<open>objectCollision\<close> for the column \<open>x\<close>: the calls it makes.
  A height that is \<open>undefined\<close> is \<open>NaN\<close> in the arithmetic.
\<close>

definition tileCollision ::
  "GroundLayer \<Rightarrow> number \<Rightarrow> int \<Rightarrow> number \<Rightarrow> int \<Rightarrow> int \<Rightarrow> floorCollision list" where
  "tileCollision this globalSpeed tilePointer tileOffset h x =
     (let i = negMod (x + tilePointer) (width this)
      in if elemAt (type this) i = Some Tile_None then []
         else
           (let l = (if elemAt (type this) (case i of None \<Rightarrow> None | Some j \<Rightarrow> negMod (j - 1) (width this))
                        = Some Tile_None then 1 else 0);
                r = (if elemAt (type this) (case i of None \<Rightarrow> None | Some j \<Rightarrow> jsRem (j + 1) (width this))
                        = Some Tile_None then 1 else 0);
                dx = nadd (nsub (nsub (nmul (Some (of_int x)) (Some 16)) tileOffset)
                                (nmul (Some (of_int BASE_SHIFT_X)) (Some 16)))
                          (Some (of_int (shift this)));
                dy = nmul (nsub (Some (of_int h)) (map_option of_int (elemAt (height this) i)))
                          (Some 16)
            in case elemAt (slope this) i of
                 Some Slope_None \<Rightarrow>
                   [\<lparr> x1 = dx, y1 = dy, x2 = nadd dx (Some 16), y2 = dy,
                      speed = globalSpeed, left = l, right = r \<rparr>]
               | Some Up \<Rightarrow>
                   [\<lparr> x1 = dx, y1 = nadd dy (Some 16), x2 = nadd dx (Some 16), y2 = dy,
                      speed = globalSpeed, left = 0, right = 0 \<rparr>]
               | Some Down \<Rightarrow>
                   [\<lparr> x1 = dx, y1 = nsub dy (Some 16), x2 = nadd dx (Some 16), y2 = dy,
                      speed = globalSpeed, left = 0, right = 0 \<rparr>]
               | None \<Rightarrow> []))"

text \<open>
  \<open>objectCollision\<close>, with \<open>posX\<close> for \<open>o.getPosition().x\<close> and \<open>screenHeight\<close> for
  \<open>event.screenHeight\<close>: the calls of \<open>o.floorCollision\<close> in the order they are made.
\<close>

definition objectCollision ::
  "GroundLayer \<Rightarrow> number \<Rightarrow> number \<Rightarrow> int \<Rightarrow> number \<Rightarrow> number \<Rightarrow> floorCollision list" where
  "objectCollision this posX globalSpeed tilePointer tileOffset screenHeight =
     (let h = toInt32 (ndiv screenHeight 16);
          px = toInt32 (ndiv (nsub posX (Some (of_int (shift this)))) 16) + BASE_SHIFT_X
      in concat (map (tileCollision this globalSpeed tilePointer tileOffset h)
                     [px - OFFSET .. px + OFFSET]))"

subsection \<open>A stage of two layers, for concrete runs\<close>

text \<open>
  Random sources for concrete runs: the listed results, then the same result for ever.
\<close>

definition listDraws :: "real list \<Rightarrow> real \<Rightarrow> rng" where
  "listDraws xs d = (\<lambda>n. if n < length xs then xs ! n else d)"

text \<open>
  The driver of the spec owns a foreground layer (here at address 0) and a background
  layer (at address 1) that refers to the foreground, and on each tile step updates the
  foreground and then the background with the same tile pointer.
\<close>

definition newStage :: "int \<Rightarrow> rng \<Rightarrow> error + (store \<times> rng)" where
  "newStage w g =
     (case constructor w Foreground 0 g of Inl e \<Rightarrow> Inl e | Inr (fg, g1) \<Rightarrow>
     (case constructor w Background 0 g1 of Inl e \<Rightarrow> Inl e | Inr (bg, g2) \<Rightarrow>
        Inr (exec (SetReferenceLayer 1 0) (\<lambda>a. if a = 0 then fg else bg, g2))))"

definition tick :: "int \<Rightarrow> call list" where
  "tick p = [Update 0 p, Update 1 p]"

definition ticks :: "int list \<Rightarrow> call list" where
  "ticks ps = concat (map tick ps)"

definition stage1 :: "store \<times> rng" where
  "stage1 = projr (newStage 8 (listDraws
     [0, 0, 1/2, 9/10, 1/10, 0, 1/4, 1/4, 1/4, 2/5, 0, 1/10, 9/10, 1/4, 1/10, 1/5, 1/4] (9/10)))"

definition stage2 :: "store \<times> rng" where
  "stage2 = projr (newStage 8 (listDraws
     [0, 3/4, 9/10, 1/2, 1/4, 0, 3/4, 9/10, 3/4, 1/4, 9/10, 3/4] (9/10)))"

definition stage3 :: "store \<times> rng" where
  "stage3 = projr (newStage 8 (listDraws
     [1/2, 1/4, 3/4, 0, 1/4, 3/4, 3/4, 9/10, 0, 3/4, 3/4, 9/10, 0] (9/10)))"

definition stage4 :: "store \<times> rng" where
  "stage4 = projr (newStage 4 (listDraws
     [0, 3/4, 1/2, 1/4, 9/10, 0, 0, 1/2, 9/10, 1/2, 3/4, 1/2, 1/2] (9/10)))"

text \<open>The first stage after tile step 0 and the foreground's update of tile step 1.\<close>

definition stage1_in_step1 :: "store \<times> rng" where
  "stage1_in_step1 = run (ticks [0] @ [Update 0 1]) stage1"

text \<open>The first stage after four tile steps and the foreground's update of the fifth.\<close>

definition stage1_in_step4 :: "store \<times> rng" where
  "stage1_in_step4 = run (ticks [0, 1, 2, 3] @ [Update 0 4]) stage1"

text \<open>The first stage after seven tile steps.\<close>

definition stage1_after7 :: "store \<times> rng" where
  "stage1_after7 = run (ticks [0, 1, 2, 3, 4, 5, 6]) stage1"

text \<open>The second stage after five tile steps.\<close>

definition stage2_after5 :: "store \<times> rng" where
  "stage2_after5 = run (ticks [0, 1, 2, 3, 4]) stage2"

text \<open>The third stage after seven tile steps and the foreground's update of the eighth.\<close>

definition stage3_in_step7 :: "store \<times> rng" where
  "stage3_in_step7 = run (ticks [0, 1, 2, 3, 4, 5, 6] @ [Update 0 7]) stage3"

text \<open>The fourth stage, of width 4, after five tile steps: the pointer has wrapped to 0.\<close>

definition stage4_after5 :: "store \<times> rng" where
  "stage4_after5 = run (ticks [0, 1, 2, 3, 0]) stage4"


definition stage5 :: "store \<times> rng" where
  "stage5 = projr (newStage 8 (listDraws
     [0, 3/4, 9/10, 3/4, 0, 0, 3/4, 1/2, 9/10, 0, 1/4, 1/4] (9/10)))"

text \<open>The fifth stage after four tile steps and the foreground's update of the fifth.\<close>

definition stage5_in_step4 :: "store \<times> rng" where
  "stage5_in_step4 = run (ticks [0, 1, 2, 3] @ [Update 0 4]) stage5"

subsection \<open>The state of a foreground layer between updates\<close>

text \<open>
  What holds of a foreground layer after its construction and after each update: the
  height is within 1 and 5, and a slope that has more than this tile to run has exactly
  one more tile to run and room for it.
\<close>

definition foregroundInv :: "GroundLayer \<Rightarrow> bool" where
  "foregroundInv l \<longleftrightarrow>
     layerType l = Foreground \<and> 1 \<le> activeHeight l \<and> activeHeight l \<le> 5 \<and>
     (activeSlope l \<noteq> Slope_None \<and> 2 \<le> slopeDuration l \<longrightarrow>
        slopeDuration l = 2 \<and>
        1 \<le> activeHeight l - slopeNum (activeSlope l) \<and>
        activeHeight l - slopeNum (activeSlope l) \<le> 5)"

section \<open>Properties\<close>

subsection \<open>The random source\<close>

lemma unitDraws_random: "unitDraws g \<Longrightarrow> unitDraws (snd (random g))"
  by (simp add: unitDraws_def random_def)

lemma random_range: "unitDraws g \<Longrightarrow> 0 \<le> fst (random g) \<and> fst (random g) < 1"
  by (simp add: unitDraws_def random_def)

lemma scaled_floor_range:
  fixes r :: real and k :: int
  assumes "0 \<le> r" "r < 1" "1 \<le> k"
  shows "0 \<le> \<lfloor>r * of_int k\<rfloor> \<and> \<lfloor>r * of_int k\<rfloor> \<le> k - 1"
proof -
  have k: "(0::real) < of_int k" using assms(3) by simp
  have "0 \<le> r * of_int k" using assms(1) k by simp
  then have lo: "0 \<le> \<lfloor>r * of_int k\<rfloor>" by simp
  have "r * of_int k < of_int k" using assms(2) k by simp
  then have "\<lfloor>r * of_int k\<rfloor> < k" by (simp add: floor_less_iff)
  with lo show ?thesis by simp
qed

lemma sampleUniform_range:
  assumes "unitDraws g" "mn \<le> mx"
  shows "mn \<le> fst (sampleUniform mn mx g) \<and> fst (sampleUniform mn mx g) \<le> mx"
proof -
  have "0 \<le> g 0" "g 0 < 1" using assms(1) by (simp_all add: unitDraws_def)
  from scaled_floor_range[OF this, of "mx - mn + 1"] assms(2)
  show ?thesis by (simp add: sampleUniform_def random_def)
qed

lemma sampleUniform_unitDraws: "unitDraws g \<Longrightarrow> unitDraws (snd (sampleUniform mn mx g))"
  by (simp add: sampleUniform_def random_def unitDraws_def)

subsection \<open>What each step leaves unchanged\<close>

lemma update_unfold:
  "update h a tp this g =
     (let s1 = updateSlope h a this g;
          s2 = updateType h a (fst s1) (snd s1);
          s3 = updateDecorations h a tp (fst s2) (snd s2);
          l3 = fst (snd s3)
      in (l3\<lparr> decorations := (if fst s3 then decorations l3 else (decorations l3)(tp \<mapsto> Deco_None)),
               height := (height l3)(tp \<mapsto> activeHeight l3),
               type := (type l3)(tp \<mapsto> activeType l3),
               slope := (slope l3)(tp \<mapsto> activeSlope l3) \<rparr>, snd (snd s3)))"
  by (simp add: update_def Let_def split: prod.splits)

lemma updateSlope_frame:
  "activeType (fst (updateSlope h a this g)) = activeType this"
  "gapTimer (fst (updateSlope h a this g)) = gapTimer this"
  "decorationWait (fst (updateSlope h a this g)) = decorationWait this"
  "ref (fst (updateSlope h a this g)) = ref this"
  "layerType (fst (updateSlope h a this g)) = layerType this"
  "width (fst (updateSlope h a this g)) = width this"
  "shift (fst (updateSlope h a this g)) = shift this"
  "height (fst (updateSlope h a this g)) = height this"
  "type (fst (updateSlope h a this g)) = type this"
  "slope (fst (updateSlope h a this g)) = slope this"
  "decorations (fst (updateSlope h a this g)) = decorations this"
  "lastSlope (fst (updateSlope h a this g)) = activeSlope this"
  by (simp_all add: updateSlope_def coupledSlope_def randomSlope_def slopeTick_def Let_def split: prod.splits)

lemma typeTransition_frame:
  "activeSlope (fst (typeTransition mn mx this g)) = activeSlope this"
  "lastSlope (fst (typeTransition mn mx this g)) = lastSlope this"
  "slopeWait (fst (typeTransition mn mx this g)) = slopeWait this"
  "slopeDuration (fst (typeTransition mn mx this g)) = slopeDuration this"
  "decorationWait (fst (typeTransition mn mx this g)) = decorationWait this"
  "ref (fst (typeTransition mn mx this g)) = ref this"
  "layerType (fst (typeTransition mn mx this g)) = layerType this"
  "width (fst (typeTransition mn mx this g)) = width this"
  "shift (fst (typeTransition mn mx this g)) = shift this"
  "height (fst (typeTransition mn mx this g)) = height this"
  "type (fst (typeTransition mn mx this g)) = type this"
  "slope (fst (typeTransition mn mx this g)) = slope this"
  "decorations (fst (typeTransition mn mx this g)) = decorations this"
  by (simp_all add: typeTransition_def Let_def split: prod.splits)

lemma updateType_frame:
  "activeSlope (fst (updateType h a this g)) = activeSlope this"
  "lastSlope (fst (updateType h a this g)) = lastSlope this"
  "slopeWait (fst (updateType h a this g)) = slopeWait this"
  "slopeDuration (fst (updateType h a this g)) = slopeDuration this"
  "decorationWait (fst (updateType h a this g)) = decorationWait this"
  "ref (fst (updateType h a this g)) = ref this"
  "layerType (fst (updateType h a this g)) = layerType this"
  "width (fst (updateType h a this g)) = width this"
  "shift (fst (updateType h a this g)) = shift this"
  "height (fst (updateType h a this g)) = height this"
  "type (fst (updateType h a this g)) = type this"
  "slope (fst (updateType h a this g)) = slope this"
  "decorations (fst (updateType h a this g)) = decorations this"
  by (simp_all add: updateType_def typeTransition_frame Let_def split: prod.splits)

lemma updateDecorations_frame:
  "activeHeight (fst (snd (updateDecorations h a tp this g))) = activeHeight this"
  "activeType (fst (snd (updateDecorations h a tp this g))) = activeType this"
  "activeSlope (fst (snd (updateDecorations h a tp this g))) = activeSlope this"
  "lastSlope (fst (snd (updateDecorations h a tp this g))) = lastSlope this"
  "typeWait (fst (snd (updateDecorations h a tp this g))) = typeWait this"
  "slopeWait (fst (snd (updateDecorations h a tp this g))) = slopeWait this"
  "slopeDuration (fst (snd (updateDecorations h a tp this g))) = slopeDuration this"
  "gapTimer (fst (snd (updateDecorations h a tp this g))) = gapTimer this"
  "ref (fst (snd (updateDecorations h a tp this g))) = ref this"
  "layerType (fst (snd (updateDecorations h a tp this g))) = layerType this"
  "width (fst (snd (updateDecorations h a tp this g))) = width this"
  "shift (fst (snd (updateDecorations h a tp this g))) = shift this"
  "height (fst (snd (updateDecorations h a tp this g))) = height this"
  "type (fst (snd (updateDecorations h a tp this g))) = type this"
  "slope (fst (snd (updateDecorations h a tp this g))) = slope this"
  by (simp_all add: updateDecorations_def Let_def split: prod.splits)

lemma updateDecorations_decorations:
  "decorations (fst (snd (updateDecorations h a tp this g))) =
     (if fst (updateDecorations h a tp this g) then (decorations this)(tp \<mapsto> Palmtree) else decorations this)"
  by (simp add: updateDecorations_def Let_def split: prod.splits)

lemma update_fields:
  "activeHeight (fst (update h a tp this g)) = activeHeight (fst (updateType h a (fst (updateSlope h a this g)) (snd (updateSlope h a this g))))"
  "activeType (fst (update h a tp this g)) = activeType (fst (updateType h a (fst (updateSlope h a this g)) (snd (updateSlope h a this g))))"
  "activeSlope (fst (update h a tp this g)) = activeSlope (fst (updateSlope h a this g))"
  "lastSlope (fst (update h a tp this g)) = activeSlope this"
  "ref (fst (update h a tp this g)) = ref this"
  "layerType (fst (update h a tp this g)) = layerType this"
  "width (fst (update h a tp this g)) = width this"
  "shift (fst (update h a tp this g)) = shift this"
  by (simp_all add: update_unfold Let_def updateDecorations_frame updateType_frame updateSlope_frame)

lemma update_arrays:
  "height (fst (update h a tp this g)) = (height this)(tp \<mapsto> activeHeight (fst (update h a tp this g)))"
  "type (fst (update h a tp this g)) = (type this)(tp \<mapsto> activeType (fst (update h a tp this g)))"
  "slope (fst (update h a tp this g)) = (slope this)(tp \<mapsto> activeSlope (fst (update h a tp this g)))"
  by (simp_all add: update_unfold Let_def updateDecorations_frame updateType_frame updateSlope_frame)

subsection \<open>Calls on a store\<close>

lemma run_append: "run (cs @ ds) s = run ds (run cs s)"
  by (induction cs arbitrary: s) auto

lemma exec_Update_same:
  "fst (exec (Update a tp) (h, g)) a = fst (update h a tp (h a) g)"
  by (simp add: split_beta)

lemma exec_Update_other:
  "b \<noteq> a \<Longrightarrow> fst (exec (Update b tp) (h, g)) a = h a"
  by (simp add: split_beta)

lemma exec_static:
  "layerType (fst (exec c (h, g)) a) = layerType (h a)"
  "width (fst (exec c (h, g)) a) = width (h a)"
  "shift (fst (exec c (h, g)) a) = shift (h a)"
  by (cases c; simp add: split_beta update_fields setReferenceLayer_def)+

lemma exec_ref:
  "(\<forall>r. c \<noteq> SetReferenceLayer a r) \<Longrightarrow> ref (fst (exec c (h, g)) a) = ref (h a)"
  by (cases c) (simp_all add: split_beta update_fields setReferenceLayer_def)

lemma run_layerType: "layerType (fst (run cs (h, g)) a) = layerType (h a)"
proof (induction cs arbitrary: h g)
  case Nil
  show ?case by simp
next
  case (Cons c cs)
  obtain h' g' where e: "exec c (h, g) = (h', g')" by (cases "exec c (h, g)")
  have "layerType (h' a) = layerType (h a)" using exec_static(1)[of c h g a] e by simp
  with Cons[of h' g'] e show ?case by simp
qed

lemma run_ref:
  "\<forall>c \<in> set cs. \<forall>r. c \<noteq> SetReferenceLayer a r \<Longrightarrow> ref (fst (run cs (h, g)) a) = ref (h a)"
proof (induction cs arbitrary: h g)
  case Nil
  show ?case by simp
next
  case (Cons c cs)
  obtain h' g' where e: "exec c (h, g) = (h', g')" by (cases "exec c (h, g)")
  have "ref (h' a) = ref (h a)" using exec_ref[of c a h g] e Cons.prems by simp
  with Cons.IH[of h' g'] Cons.prems e show ?case by simp
qed

lemma decorationRejected_decorationWait:
  "decorationRejected h a (this\<lparr> decorationWait := x \<rparr>) = decorationRejected h a this"
  by (simp add: decorationRejected_def refObj_def split: option.splits)

lemma updateDecorations_placed:
  "fst (updateDecorations h a tp this g) \<longleftrightarrow> decorationWait this \<le> 1 \<and> \<not> decorationRejected h a this"
  by (auto simp add: updateDecorations_def Let_def decorationRejected_decorationWait split: prod.splits)

lemma update_decoration_slot:
  "decorations (fst (update h a tp this g)) tp =
     Some (if fst (updateDecorations h a tp (fst (updateType h a (fst (updateSlope h a this g)) (snd (updateSlope h a this g))))
                      (snd (updateType h a (fst (updateSlope h a this g)) (snd (updateSlope h a this g)))))
           then Palmtree else Deco_None)"
  by (simp add: update_unfold Let_def updateDecorations_decorations)

text \<open>The definitions that a concrete run unfolds.\<close>

lemmas run_defs =
  newStage_def constructor_def newArrayFill_def listDraws_def tick_def ticks_def
  sampleUniform_def random_def update_def updateSlope_def updateType_def updateDecorations_def
  slopeTick_def coupledRule_def coupledSlope_def randomSlope_def typeTransition_def
  getHeightRange_def refObj_def decorationRejected_def setReferenceLayer_def clamp_def
  SLOPE_WAIT_MIN_def SLOPE_WAIT_MAX_def DECORATION_WAIT_MIN_def DECORATION_WAIT_MAX_def
  GAP_JUMP_MAX_def Let_def

subsection \<open>The coupled slope rule\<close>

lemma updateSlope_coupled:
  "coupledRule h a (slopeTick this) \<Longrightarrow> updateSlope h a this g = (coupledSlope (slopeTick this), g)"
  by (simp add: updateSlope_def Let_def split_beta)

lemma updateType_background_surface_height:
  "layerType this = Background \<Longrightarrow> activeType this = Surface \<Longrightarrow>
   activeHeight (fst (updateType h a this g)) = activeHeight this"
  by (simp add: updateType_def typeTransition_def Let_def split_beta)

text \<open>
  Claim C4. When the coupled rule fires in \<open>updateSlope\<close> (a background layer with a
  reference, on a surface, at most 1 above the reference, or at most 2 while the reference
  goes up), the slope is set to ascending, the wait timer to 2, the active height goes up by
  exactly one, the type timer is incremented, and the random slope is not run: no random
  result is taken. The duration counter is set to 0, which is a slope of one tile: the
  first statements of the next \<open>updateSlope\<close> set the slope back to flat.
\<close>

theorem coupled_rule_effect:
  assumes "coupledRule h a (slopeTick this)"
  shows "activeSlope (fst (updateSlope h a this g)) = Up \<and>
         slopeDuration (fst (updateSlope h a this g)) = 0 \<and>
         activeSlope (slopeTick (fst (updateSlope h a this g))) = Slope_None \<and>
         slopeWait (fst (updateSlope h a this g)) = 2 \<and>
         activeHeight (fst (updateSlope h a this g)) = activeHeight this + 1 \<and>
         typeWait (fst (updateSlope h a this g)) = typeWait this + 1 \<and>
         snd (updateSlope h a this g) = g"
  using assms
  by (simp add: updateSlope_def coupledSlope_def slopeTick_def Let_def split: prod.splits)

text \<open>The rule fires in the background's update of the fifth tile step of the first stage.\<close>

theorem coupled_rule_effect_witness:
  "coupledRule (fst stage1_in_step4) 1 (slopeTick (fst stage1_in_step4 1)) \<and>
   activeSlope (fst (updateSlope (fst stage1_in_step4) 1 (fst stage1_in_step4 1) (snd stage1_in_step4))) = Up \<and>
   activeHeight (fst (updateSlope (fst stage1_in_step4) 1 (fst stage1_in_step4 1) (snd stage1_in_step4))) = 5 \<and>
   typeWait (fst (updateSlope (fst stage1_in_step4) 1 (fst stage1_in_step4 1) (snd stage1_in_step4))) = 2"
proof -
  have f: "coupledRule (fst stage1_in_step4) 1 (slopeTick (fst stage1_in_step4 1))"
    by (simp add: stage1_in_step4_def stage1_def run_defs)
  have a: "activeHeight (fst stage1_in_step4 1) = 4" "typeWait (fst stage1_in_step4 1) = 1"
    by (simp_all add: stage1_in_step4_def stage1_def run_defs)
  from coupled_rule_effect[OF f, of "snd stage1_in_step4"] f a show ?thesis by simp
qed

subsection \<open>Decorations\<close>

text \<open>
  Claim C5, as amended. When the countdown has run out and the placement is rejected,
  the countdown is not set anew: it keeps the decremented value, no random result is taken
  and no decoration is written, so the placement is tried again on the next step. Only a
  placement sets it to a draw from 8 to 16.
\<close>

theorem rejected_decoration_keeps_countdown:
  assumes "decorationWait this \<le> 1" and "unitDraws g"
  shows "if decorationRejected h a this
         then \<not> fst (updateDecorations h a tp this g) \<and>
              decorationWait (fst (snd (updateDecorations h a tp this g))) = decorationWait this - 1 \<and>
              decorations (fst (snd (updateDecorations h a tp this g))) = decorations this \<and>
              snd (snd (updateDecorations h a tp this g)) = g
         else fst (updateDecorations h a tp this g) \<and>
              DECORATION_WAIT_MIN \<le> decorationWait (fst (snd (updateDecorations h a tp this g))) \<and>
              decorationWait (fst (snd (updateDecorations h a tp this g))) \<le> DECORATION_WAIT_MAX \<and>
              decorations (fst (snd (updateDecorations h a tp this g))) = (decorations this)(tp \<mapsto> Palmtree)"
proof (cases "decorationRejected h a this")
  case True
  then show ?thesis using assms(1)
    by (simp add: updateDecorations_def Let_def decorationRejected_decorationWait)
next
  case False
  have "DECORATION_WAIT_MIN \<le> DECORATION_WAIT_MAX"
    by (simp add: DECORATION_WAIT_MIN_def DECORATION_WAIT_MAX_def)
  from sampleUniform_range[OF assms(2) this] False assms(1) show ?thesis
    by (simp add: updateDecorations_def Let_def decorationRejected_decorationWait split_beta)
qed

text \<open>Claim C5 as stated fails: in the eighth tile step of the first stage the foreground's countdown runs out, the placement is rejected, and the countdown is left at 0.\<close>

theorem rejected_decoration_not_rearmed:
  "decorationWait (fst stage1_after7 0) = 1 \<and>
   decorationRejected (fst stage1_after7) 0 (fst stage1_after7 0) \<and>
   decorationWait (fst (snd (updateDecorations (fst stage1_after7) 0 7 (fst stage1_after7 0) (snd stage1_after7)))) = 0 \<and>
   decorationWait (fst (exec (Update 0 7) stage1_after7) 0) = 0 \<and>
   decorations (fst (exec (Update 0 7) stage1_after7) 0) 7 = Some Deco_None"
  by (simp add: stage1_after7_def stage1_def run_defs)

text \<open>The same step through the theorem.\<close>

theorem rejected_decoration_keeps_countdown_witness:
  "decorationWait (fst stage1_after7 0) \<le> 1 \<and> unitDraws (snd stage1_after7) \<and>
   decorationRejected (fst stage1_after7) 0 (fst stage1_after7 0) \<and>
   \<not> fst (updateDecorations (fst stage1_after7) 0 7 (fst stage1_after7 0) (snd stage1_after7)) \<and>
   decorationWait (fst (snd (updateDecorations (fst stage1_after7) 0 7 (fst stage1_after7 0) (snd stage1_after7)))) = 0 \<and>
   snd (snd (updateDecorations (fst stage1_after7) 0 7 (fst stage1_after7 0) (snd stage1_after7))) = snd stage1_after7"
proof -
  have a: "decorationWait (fst stage1_after7 0) = 1" "decorationRejected (fst stage1_after7) 0 (fst stage1_after7 0)"
    by (simp_all add: stage1_after7_def stage1_def run_defs)
  have u: "unitDraws (snd stage1_after7)"
    by (simp add: stage1_after7_def stage1_def run_defs unitDraws_def nth_Cons' )
  have w: "decorationWait (fst stage1_after7 0) \<le> 1" using a(1) by simp
  from rejected_decoration_keeps_countdown[OF w u, of "fst stage1_after7" 0 7] a u
  show ?thesis by simp
qed

text \<open>
  Claim C6, as amended. A decoration is placed exactly when the countdown has run out, the
  layer is on a flat surface and, for a foreground layer, the reference is set and its
  current type is the empty one. A background layer is not held back by its reference.
\<close>

theorem decoration_placed_iff:
  "fst (updateDecorations h a tp this g) \<longleftrightarrow>
     decorationWait this \<le> 1 \<and> activeType this = Surface \<and> activeSlope this = Slope_None \<and>
     (layerType this = Background \<or> map_option activeType (refObj h a this) = Some Tile_None)"
  by (cases "layerType this") (auto simp add: updateDecorations_placed decorationRejected_def)

text \<open>Claim C6 as stated fails: in the eighth tile step of the third stage the foreground is in a gap and the background layer, which refers to it, places a palm tree.\<close>

theorem background_decorates_over_foreground_gap:
  "layerType (fst stage3_in_step7 1) = Background \<and>
   ref (fst stage3_in_step7 1) = Some 0 \<and>
   layerType (fst stage3_in_step7 0) = Foreground \<and>
   activeType (fst stage3_in_step7 0) = Tile_None \<and>
   decorations (fst (exec (Update 1 7) stage3_in_step7) 1) 7 = Some Palmtree"
  by (simp add: stage3_in_step7_def stage3_def run_defs)

text \<open>
  Claim C10. A foreground layer whose reference was never set places no decoration: each of
  its updates writes \<open>Decoration.None\<close> into the slot of the tile pointer, whatever calls
  came before (none of them setting its reference).
\<close>

theorem foreground_without_reference_never_decorates:
  assumes "layerType (h a) = Foreground" and "ref (h a) = None"
    and "\<forall>c \<in> set cs. \<forall>r. c \<noteq> SetReferenceLayer a r"
  shows "decorations (fst (run (cs @ [Update a tp]) (h, g)) a) tp = Some Deco_None"
proof -
  obtain h' g' where r: "run cs (h, g) = (h', g')" by (cases "run cs (h, g)")
  have lt: "layerType (h' a) = Foreground" using run_layerType[of cs h g a] r assms(1) by simp
  have rf: "ref (h' a) = None" using run_ref[OF assms(3), of h g] r assms(2) by simp
  have "decorationRejected h' a l" if "layerType l = Foreground" "ref l = None" for l
    using that by (simp add: decorationRejected_def refObj_def)
  then have "\<not> fst (updateDecorations h' a tp l g'')" if "layerType l = Foreground" "ref l = None" for l g''
    using that by (simp add: updateDecorations_placed)
  then have "decorations (fst (update h' a tp (h' a) g')) tp = Some Deco_None"
    using lt rf by (simp add: update_decoration_slot updateType_frame updateSlope_frame)
  then show ?thesis using r by (simp add: run_append split_beta)
qed

text \<open>The foreground of the first stage has no reference; its eighth update, when its countdown has run out, writes no decoration.\<close>

theorem foreground_without_reference_never_decorates_witness:
  "layerType (fst stage1 0) = Foreground \<and> ref (fst stage1 0) = None \<and>
   decorations (fst (run (ticks [0, 1, 2, 3, 4, 5, 6] @ [Update 0 7]) stage1) 0) 7 = Some Deco_None"
proof -
  have a: "layerType (fst stage1 0) = Foreground" "ref (fst stage1 0) = None"
    by (simp_all add: stage1_def run_defs)
  have c: "\<forall>c \<in> set (ticks [0, 1, 2, 3, 4, 5, 6]). \<forall>r. c \<noteq> SetReferenceLayer 0 r"
    by (simp add: ticks_def tick_def)
  from foreground_without_reference_never_decorates
         [of "fst stage1" 0 "ticks [0, 1, 2, 3, 4, 5, 6]" 7 "snd stage1"] a c
  show ?thesis by simp
qed

subsection \<open>Construction and the reference\<close>

text \<open>
  Claim C9, as amended. Of the widths of the model, which are integers, the constructor
  fails exactly on those that are negative or at least \<open>2^32\<close>, where the allocation of the
  arrays throws. The width 0 is accepted and gives a layer of width 0 whose four arrays are
  empty. Setting the reference is never refused: after any calls it stores the reference.
\<close>

theorem construction_and_reference_checks:
  "(isl (constructor w ty sh g) \<longleftrightarrow> w < 0 \<or> 2 ^ 32 \<le> w) \<and>
   \<not> isl (constructor 0 ty sh g) \<and>
   width (fst (projr (constructor 0 ty sh g))) = 0 \<and>
   height (fst (projr (constructor 0 ty sh g))) = Map.empty \<and>
   type (fst (projr (constructor 0 ty sh g))) = Map.empty \<and>
   slope (fst (projr (constructor 0 ty sh g))) = Map.empty \<and>
   decorations (fst (projr (constructor 0 ty sh g))) = Map.empty \<and>
   ref (fst (exec (SetReferenceLayer a r) (run cs (h, g'))) a) = Some r"
proof -
  have "isl (constructor w ty sh g) \<longleftrightarrow> w < 0 \<or> 2 ^ 32 \<le> w"
    by (simp add: constructor_def newArrayFill_def split_beta)
  moreover have "\<not> isl (constructor 0 ty sh g)"
    "width (fst (projr (constructor 0 ty sh g))) = 0"
    "height (fst (projr (constructor 0 ty sh g))) = Map.empty"
    "type (fst (projr (constructor 0 ty sh g))) = Map.empty"
    "slope (fst (projr (constructor 0 ty sh g))) = Map.empty"
    "decorations (fst (projr (constructor 0 ty sh g))) = Map.empty"
    by (simp_all add: constructor_def newArrayFill_def split_beta fun_eq_iff)
  moreover have "ref (fst (exec (SetReferenceLayer a r) s) a) = Some r" for s
    by (cases s) (simp add: setReferenceLayer_def)
  ultimately show ?thesis by simp
qed

text \<open>Claim C9 as stated fails: a layer of width 0 is constructed, and a reference is set on the foreground of the first stage after seven tiles were generated.\<close>

theorem zero_width_and_late_reference_accepted:
  "\<not> isl (constructor 0 Foreground 0 (listDraws [] 0)) \<and>
   height (fst stage1_after7 0) 6 \<noteq> None \<and>
   ref (fst (exec (SetReferenceLayer 0 1) stage1_after7) 0) = Some 1"
  by (simp add: stage1_after7_def stage1_def run_defs)

subsection \<open>The collision probe\<close>

lemma jsRem_nonneg: "0 \<le> a \<Longrightarrow> 0 < n \<Longrightarrow> jsRem a n = Some (a mod n)"
  by (cases "a = 0") (simp_all add: jsRem_def)

lemma negMod_pos:
  assumes "0 < n"
  shows "negMod m n = Some (m mod n)"
proof (cases "0 \<le> m")
  case True
  then have "jsRem m n = Some (m mod n)" using assms by (rule jsRem_nonneg)
  moreover have "0 \<le> m mod n + n" using assms by (simp add: add_nonneg_nonneg)
  ultimately show ?thesis using assms by (simp add: negMod_def jsRem_nonneg)
next
  case False
  then have m: "m < 0" by simp
  then have r: "jsRem m n = Some (- ((- m) mod n))" using assms by (simp add: jsRem_def)
  have "(- m) mod n < n" using assms by simp
  then have "0 \<le> - ((- m) mod n) + n" by simp
  then have "jsRem (- ((- m) mod n) + n) n = Some ((- ((- m) mod n) + n) mod n)"
    using assms by (rule jsRem_nonneg)
  moreover have "(- ((- m) mod n) + n) mod n = m mod n"
    by (simp add: mod_minus_eq)
  ultimately show ?thesis using r by (simp add: negMod_def)
qed

text \<open>Binary64 arithmetic is exact on the integers below \<open>2^53\<close>.\<close>

lemma exponent_int:
  assumes "n \<noteq> 0"
  shows "exponent (of_int n) = bitlen \<bar>n\<bar> - 1"
proof -
  have "1 \<le> \<bar>n\<bar>" using assms by simp
  then have "1 \<le> real_of_int \<bar>n\<bar>" by (simp only: of_int_1_le_iff)
  then have a: "1 \<le> \<bar>real_of_int n\<bar>" by (simp only: of_int_abs)
  have "\<lfloor>real_of_int \<bar>n\<bar>\<rfloor> = \<bar>n\<bar>" by (rule floor_of_int)
  then have b: "\<lfloor>\<bar>real_of_int n\<bar>\<rfloor> = \<bar>n\<bar>" by (simp only: of_int_abs)
  show ?thesis unfolding exponent_def using a b by (simp only: if_True)
qed

lemma below_overflow:
  assumes "\<bar>n\<bar> < 2 ^ 53"
  shows "\<bar>real_of_int n\<bar> < 2 powi 1024"
proof -
  have "real_of_int \<bar>n\<bar> < real_of_int (2 ^ 53)" using assms by (simp only: of_int_less_iff)
  then have a: "\<bar>real_of_int n\<bar> < 2 ^ 53" by (simp only: of_int_abs of_int_power of_int_numeral)
  have "(2::real) ^ 53 \<le> 2 ^ 1024" by (rule power_increasing) simp_all
  with a have "\<bar>real_of_int n\<bar> < 2 ^ 1024" by (rule less_le_trans)
  moreover have "(2::real) powi 1024 = 2 ^ 1024" by (simp only: power_int_numeral)
  ultimately show ?thesis by (simp only:)
qed

lemma binary64_int:
  assumes "\<bar>n\<bar> < 2 ^ 53"
  shows "binary64 (of_int n) = Some (of_int n)"
proof (cases "n = 0")
  case True
  then show ?thesis by (simp add: binary64_def)
next
  case False
  define e where "e = bitlen \<bar>n\<bar> - 1"
  have pos: "0 < \<bar>n\<bar>" using False by simp
  have e0: "0 \<le> e" using pos by (simp add: e_def bitlen_alt_def)
  have "bitlen \<bar>n\<bar> \<le> 53"
    using assms pos by (simp add: bitlen_le_iff_power)
  then have e52: "e \<le> 52" by (simp add: e_def)
  define k where "k = nat (52 - e)"
  have u: "(2::real) powi (e - 52) = 1 / 2 ^ k"
    using e52 by (simp add: power_int_def k_def inverse_eq_divide power_one_over)
  have q: "real_of_int n / (1 / 2 ^ k) = of_int (n * 2 ^ k)" by simp
  have ex: "max (exponent (of_int n)) (- 1022) = e"
    using exponent_int[OF False] e0 by (simp add: e_def)
  have r: "real_of_int (n * 2 ^ k) * (1 / 2 ^ k) = of_int n" by simp
  have fl: "\<lfloor>real_of_int (n * 2 ^ k)\<rfloor> = n * 2 ^ k" by (rule floor_of_int)
  have nz: "real_of_int n \<noteq> 0" using False by simp
  have hf: "(0::real) < 1 / 2" by simp
  have "binary64 (of_int n) =
          (if \<bar>real_of_int (n * 2 ^ k) * (1 / 2 ^ k)\<bar> < 2 powi 1024
           then Some (real_of_int (n * 2 ^ k) * (1 / 2 ^ k)) else None)"
    unfolding binary64_def Let_def ex u q fl using nz hf by (simp only: diff_self if_False if_True)
  also have "\<dots> = Some (of_int n)"
    unfolding r using below_overflow[OF assms] by (simp only: if_True)
  finally show ?thesis .
qed

lemma binary64_numeral:
  "(numeral k :: int) < 2 ^ 53 \<Longrightarrow> binary64 (numeral k) = Some (numeral k)"
  "(numeral k :: int) < 2 ^ 53 \<Longrightarrow> binary64 (- numeral k) = Some (- numeral k)"
  "binary64 0 = Some 0"
  "binary64 1 = Some 1"
  using binary64_int[of "numeral k"] binary64_int[of "- numeral k"] binary64_int[of 0]
    binary64_int[of 1]
  by simp_all

lemmas number_defs = nadd_def nsub_def nmul_def ndiv_def toInt32_def binary64_numeral

text \<open>
  Claim C8, as amended. The probe visits the columns from two left to two right of the
  actor's column and makes, for a column whose tile \<open>i\<close> has a type, a slope and a height,
  no call when the tile is empty and exactly one call otherwise: for a flat tile the
  horizontal segment at the tile's height with the flags of the empty neighbours, for an
  ascending tile the segment from one tile lower on the left to the tile's height on the
  right, for a descending tile from one tile higher on the left; each with the global speed.
  The segments of sloped tiles carry the flags 0 and 0, whatever the neighbours are. The
  coordinates are those of the code's binary64 arithmetic, each operation rounded.
\<close>

theorem probe_floor_segments:
  assumes "0 < width this"
    and "i = (x + tilePointer) mod width this"
    and "type this i = Some t" and "slope this i = Some s" and "height this i = Some v"
    and "dx = nadd (nsub (nsub (nmul (Some (of_int x)) (Some 16)) tileOffset) (Some 32))
                   (Some (of_int (shift this)))"
    and "dy = nmul (nsub (Some (of_int (toInt32 (ndiv screenHeight 16)))) (Some (of_int v))) (Some 16)"
    and "px = toInt32 (ndiv (nsub posX (Some (of_int (shift this)))) 16) + 2"
  shows "objectCollision this posX globalSpeed tilePointer tileOffset screenHeight =
           concat (map (tileCollision this globalSpeed tilePointer tileOffset (toInt32 (ndiv screenHeight 16)))
                       [px - 2 .. px + 2]) \<and>
         tileCollision this globalSpeed tilePointer tileOffset (toInt32 (ndiv screenHeight 16)) x =
           (if t = Tile_None then []
            else [case s of
                    Slope_None \<Rightarrow>
                      \<lparr> x1 = dx, y1 = dy, x2 = nadd dx (Some 16), y2 = dy, speed = globalSpeed,
                        left = (if type this ((i - 1) mod width this) = Some Tile_None then 1 else 0),
                        right = (if type this ((i + 1) mod width this) = Some Tile_None then 1 else 0) \<rparr>
                  | Up \<Rightarrow>
                      \<lparr> x1 = dx, y1 = nadd dy (Some 16), x2 = nadd dx (Some 16), y2 = dy,
                        speed = globalSpeed, left = 0, right = 0 \<rparr>
                  | Down \<Rightarrow>
                      \<lparr> x1 = dx, y1 = nsub dy (Some 16), x2 = nadd dx (Some 16), y2 = dy,
                        speed = globalSpeed, left = 0, right = 0 \<rparr>])"
proof -
  have i0: "0 \<le> i" using assms(1,2) by simp
  have n: "negMod (x + tilePointer) (width this) = Some i"
    using assms(1,2) by (simp add: negMod_pos)
  have l: "negMod (i - 1) (width this) = Some ((i - 1) mod width this)"
    using assms(1) by (rule negMod_pos)
  have r: "jsRem (i + 1) (width this) = Some ((i + 1) mod width this)"
    using i0 assms(1) by (simp add: jsRem_nonneg)
  have b: "nmul (Some (of_int BASE_SHIFT_X)) (Some 16) = Some 32"
    by (simp add: BASE_SHIFT_X_def nmul_def binary64_numeral)
  have "objectCollision this posX globalSpeed tilePointer tileOffset screenHeight =
           concat (map (tileCollision this globalSpeed tilePointer tileOffset (toInt32 (ndiv screenHeight 16)))
                       [px - 2 .. px + 2])"
    using assms(8) by (simp add: objectCollision_def OFFSET_def BASE_SHIFT_X_def Let_def)
  moreover have "tileCollision this globalSpeed tilePointer tileOffset (toInt32 (ndiv screenHeight 16)) x =
           (if t = Tile_None then []
            else [case s of
                    Slope_None \<Rightarrow>
                      \<lparr> x1 = dx, y1 = dy, x2 = nadd dx (Some 16), y2 = dy, speed = globalSpeed,
                        left = (if type this ((i - 1) mod width this) = Some Tile_None then 1 else 0),
                        right = (if type this ((i + 1) mod width this) = Some Tile_None then 1 else 0) \<rparr>
                  | Up \<Rightarrow>
                      \<lparr> x1 = dx, y1 = nadd dy (Some 16), x2 = nadd dx (Some 16), y2 = dy,
                        speed = globalSpeed, left = 0, right = 0 \<rparr>
                  | Down \<Rightarrow>
                      \<lparr> x1 = dx, y1 = nsub dy (Some 16), x2 = nadd dx (Some 16), y2 = dy,
                        speed = globalSpeed, left = 0, right = 0 \<rparr>])"
    using assms(3-7)
    by (cases s) (simp_all add: tileCollision_def elemAt_def n l r b Let_def)
  ultimately show ?thesis by simp
qed

text \<open>
  In the fourth stage the probe at the actor position 0 reports the flat tile 2, whose
  left neighbour is empty, with the left flag set.
\<close>

theorem probe_floor_segments_witness:
  "0 < width (fst stage4_after5 0) \<and>
   type (fst stage4_after5 0) 2 = Some Surface \<and>
   slope (fst stage4_after5 0) 2 = Some Slope_None \<and>
   height (fst stage4_after5 0) 2 = Some 1 \<and>
   type (fst stage4_after5 0) 1 = Some Tile_None \<and>
   tileCollision (fst stage4_after5 0) (Some 1) 1 (Some 0) (toInt32 (ndiv (Some 192) 16)) 1 =
     [\<lparr> x1 = Some (- 16), y1 = Some 176, x2 = Some 0, y2 = Some 176, speed = Some 1,
        left = 1, right = 0 \<rparr>]"
proof -
  have a: "0 < width (fst stage4_after5 0)"
    "type (fst stage4_after5 0) 2 = Some Surface"
    "slope (fst stage4_after5 0) 2 = Some Slope_None"
    "height (fst stage4_after5 0) 2 = Some 1"
    "type (fst stage4_after5 0) 1 = Some Tile_None"
    "type (fst stage4_after5 0) 3 = Some Surface"
    "width (fst stage4_after5 0) = 4" "shift (fst stage4_after5 0) = 0"
    by (simp_all add: stage4_after5_def stage4_def run_defs)
  have i: "(2::int) = (1 + 1) mod width (fst stage4_after5 0)" by (simp add: a)
  have c: "nadd (nsub (nsub (nmul (Some (of_int 1)) (Some 16)) (Some 0)) (Some 32))
                (Some (of_int (shift (fst stage4_after5 0)))) = Some (- 16)"
    "nmul (nsub (Some (of_int (toInt32 (ndiv (Some 192) 16)))) (Some (of_int 1))) (Some 16) = Some 176"
    "nadd (Some (- 16)) (Some 16) = Some 0"
    by (simp_all add: a number_defs)
  from probe_floor_segments[where tileOffset = "Some 0" and screenHeight = "Some 192"
         and posX = "Some 0" and globalSpeed = "Some 1",
         OF a(1) i a(2) a(3) a(4) refl refl refl] a c
  show ?thesis by simp
qed

text \<open>
  Claim C8 as stated fails: in the fourth stage the ascending tile 0 has the empty tile 1
  as its right neighbour, and its segment, the last of the three that the probe reports,
  carries the right flag 0.
\<close>

theorem slope_segment_flags_ignore_neighbors:
  "type (fst stage4_after5 0) 0 = Some Surface \<and>
   slope (fst stage4_after5 0) 0 = Some Up \<and>
   type (fst stage4_after5 0) 1 = Some Tile_None \<and>
   width (fst stage4_after5 0) = 4 \<and>
   objectCollision (fst stage4_after5 0) (Some 0) (Some 1) 1 (Some 0) (Some 192) =
     [\<lparr> x1 = Some (- 16), y1 = Some 176, x2 = Some 0, y2 = Some 176, speed = Some 1,
        left = 1, right = 0 \<rparr>,
      \<lparr> x1 = Some 0, y1 = Some 176, x2 = Some 16, y2 = Some 176, speed = Some 1,
        left = 0, right = 0 \<rparr>,
      \<lparr> x1 = Some 16, y1 = Some 176, x2 = Some 32, y2 = Some 160, speed = Some 1,
        left = 0, right = 0 \<rparr>]"
proof -
  have a: "type (fst stage4_after5 0) 0 = Some Surface"
    "type (fst stage4_after5 0) 1 = Some Tile_None"
    "type (fst stage4_after5 0) 2 = Some Surface"
    "type (fst stage4_after5 0) 3 = Some Surface"
    "slope (fst stage4_after5 0) 0 = Some Up"
    "slope (fst stage4_after5 0) 2 = Some Slope_None"
    "slope (fst stage4_after5 0) 3 = Some Slope_None"
    "height (fst stage4_after5 0) 0 = Some 2"
    "height (fst stage4_after5 0) 2 = Some 1"
    "height (fst stage4_after5 0) 3 = Some 1"
    "width (fst stage4_after5 0) = 4" "shift (fst stage4_after5 0) = 0"
    by (simp_all add: stage4_after5_def stage4_def run_defs)
  have w: "[0 .. 4 :: int] = [0, 1, 2, 3, 4]" by (simp add: upto.simps)
  show ?thesis
    by (simp add: a w objectCollision_def tileCollision_def number_defs negMod_def jsRem_def elemAt_def
          OFFSET_def BASE_SHIFT_X_def Let_def)
qed

subsection \<open>One tile step writes one slot\<close>

lemma update_decorations_array:
  "decorations (fst (update h a tp this g)) =
     (decorations this)(tp \<mapsto>
        (if fst (updateDecorations h a tp (fst (updateType h a (fst (updateSlope h a this g)) (snd (updateSlope h a this g))))
                      (snd (updateType h a (fst (updateSlope h a this g)) (snd (updateSlope h a this g)))))
         then Palmtree else Deco_None))"
  by (simp add: update_unfold Let_def updateDecorations_decorations updateType_frame updateSlope_frame)

lemma update_step:
  "(let (l1, g1) = updateSlope h a this g;
        (l2, g2) = updateType h a l1 g1;
        (placed, l3, g3) = updateDecorations h a tp l2 g2
    in update h a tp this g =
         (l3\<lparr> decorations := (decorations this)(tp \<mapsto> if placed then Palmtree else Deco_None),
                height := (height this)(tp \<mapsto> activeHeight l3),
                type := (type this)(tp \<mapsto> activeType l3),
                slope := (slope this)(tp \<mapsto> activeSlope l3) \<rparr>, g3))"
  by (simp add: update_unfold Let_def split_beta updateDecorations_decorations
        updateDecorations_frame updateType_frame updateSlope_frame)

lemma update_other_slots:
  assumes "i \<noteq> tp"
  shows "height (fst (update h a tp this g)) i = height this i"
    and "type (fst (update h a tp this g)) i = type this i"
    and "slope (fst (update h a tp this g)) i = slope this i"
    and "decorations (fst (update h a tp this g)) i = decorations this i"
  using assms update_arrays[of h a tp this g] update_decorations_array[of h a tp this g]
  by simp_all

lemma run_snoc: "run (cs @ [c]) s = exec c (run cs s)"
  by (simp add: run_append)

lemma run_updates_other_slots:
  assumes "i \<notin> set ps"
  shows "height (fst (run (map (Update a) ps) (h, g)) a) i = height (h a) i \<and>
         type (fst (run (map (Update a) ps) (h, g)) a) i = type (h a) i \<and>
         slope (fst (run (map (Update a) ps) (h, g)) a) i = slope (h a) i \<and>
         decorations (fst (run (map (Update a) ps) (h, g)) a) i = decorations (h a) i"
  using assms
proof (induction ps arbitrary: h g)
  case Nil
  show ?case by simp
next
  case (Cons p ps)
  obtain l g' where u: "update h a p (h a) g = (l, g')" by (cases "update h a p (h a) g")
  have ne: "i \<noteq> p" and ni: "i \<notin> set ps" using Cons.prems by simp_all
  have l: "height l i = height (h a) i" "type l i = type (h a) i"
       "slope l i = slope (h a) i" "decorations l i = decorations (h a) i"
    using update_other_slots[OF ne, of h a "h a" g] u by simp_all
  have e: "run (map (Update a) (p # ps)) (h, g) = run (map (Update a) ps) (h(a := l), g')"
    using u by simp
  have s: "(h(a := l)) a = l" by simp
  show ?case
    unfolding e using Cons.IH[OF ni, of "h(a := l)" g'] by (simp only: s l)
qed

lemma run_updates_written_slots:
  assumes "distinct ps" "k < length ps"
  shows "height (fst (run (map (Update a) ps) (h, g)) a) (ps ! k) =
           Some (activeHeight (fst (run (map (Update a) (take (Suc k) ps)) (h, g)) a)) \<and>
         type (fst (run (map (Update a) ps) (h, g)) a) (ps ! k) =
           Some (activeType (fst (run (map (Update a) (take (Suc k) ps)) (h, g)) a)) \<and>
         slope (fst (run (map (Update a) ps) (h, g)) a) (ps ! k) =
           Some (activeSlope (fst (run (map (Update a) (take (Suc k) ps)) (h, g)) a)) \<and>
         decorations (fst (run (map (Update a) ps) (h, g)) a) (ps ! k) =
           decorations (fst (run (map (Update a) (take (Suc k) ps)) (h, g)) a) (ps ! k)"
proof -
  let ?pre = "take k ps" and ?post = "drop (Suc k) ps"
  have ps: "ps = ?pre @ [ps ! k] @ ?post"
    using assms(2) by (simp add: id_take_nth_drop)
  have tk: "take (Suc k) ps = ?pre @ [ps ! k]"
    using assms(2) by (simp add: take_Suc_conv_app_nth)
  obtain h1 g1 where r1: "run (map (Update a) ?pre) (h, g) = (h1, g1)"
    by (cases "run (map (Update a) ?pre) (h, g)")
  obtain l g2 where u: "update h1 a (ps ! k) (h1 a) g1 = (l, g2)"
    by (cases "update h1 a (ps ! k) (h1 a) g1")
  have mid: "run (map (Update a) (take (Suc k) ps)) (h, g) = (h1(a := l), g2)"
    using r1 u by (simp add: tk run_append)
  have fin: "run (map (Update a) ps) (h, g) = run (map (Update a) ?post) (h1(a := l), g2)"
  proof -
    have "run (map (Update a) ps) (h, g) = run (map (Update a) (?pre @ [ps ! k] @ ?post)) (h, g)"
      using ps by simp
    also have "\<dots> = run (map (Update a) ?post) (h1(a := l), g2)"
      using r1 u by (simp add: run_append)
    finally show ?thesis .
  qed
  have "ps ! k \<notin> set ?post"
    using assms by (metis ps distinct_append distinct.simps(2) append_Cons append_Nil disjoint_iff list.set_intros(1))
  from run_updates_other_slots[OF this, of a "h1(a := l)" g2]
  have keep: "height (fst (run (map (Update a) ps) (h, g)) a) (ps ! k) = height l (ps ! k)"
       "type (fst (run (map (Update a) ps) (h, g)) a) (ps ! k) = type l (ps ! k)"
       "slope (fst (run (map (Update a) ps) (h, g)) a) (ps ! k) = slope l (ps ! k)"
       "decorations (fst (run (map (Update a) ps) (h, g)) a) (ps ! k) = decorations l (ps ! k)"
    by (simp_all add: fin)
  have "height l (ps ! k) = Some (activeHeight l)" "type l (ps ! k) = Some (activeType l)"
       "slope l (ps ! k) = Some (activeSlope l)"
    using update_arrays[of h1 a "ps ! k" "h1 a" g1] u by simp_all
  with keep mid show ?thesis by simp
qed

text \<open>
  Claim C7. An update is the slope step, then the type step, then the decoration step,
  and then the four arrays of the layer as they were before the call with the slot of the
  tile pointer alone set to the new active height, type and slope and to the decoration
  that was placed or not. Over updates with distinct tile pointers each of their slots
  holds at the end what the update with that pointer wrote, and every other slot is as
  before: each slot was written exactly once.
\<close>

theorem update_writes_one_slot:
  assumes "distinct ps"
  shows "(let (l1, g1) = updateSlope h a this g;
              (l2, g2) = updateType h a l1 g1;
              (placed, l3, g3) = updateDecorations h a tp l2 g2
          in update h a tp this g =
               (l3\<lparr> decorations := (decorations this)(tp \<mapsto> if placed then Palmtree else Deco_None),
                      height := (height this)(tp \<mapsto> activeHeight l3),
                      type := (type this)(tp \<mapsto> activeType l3),
                      slope := (slope this)(tp \<mapsto> activeSlope l3) \<rparr>, g3)) \<and>
         (\<forall>k < length ps.
            height (fst (run (map (Update a) ps) (s, g)) a) (ps ! k) =
              Some (activeHeight (fst (run (map (Update a) (take (Suc k) ps)) (s, g)) a)) \<and>
            type (fst (run (map (Update a) ps) (s, g)) a) (ps ! k) =
              Some (activeType (fst (run (map (Update a) (take (Suc k) ps)) (s, g)) a)) \<and>
            slope (fst (run (map (Update a) ps) (s, g)) a) (ps ! k) =
              Some (activeSlope (fst (run (map (Update a) (take (Suc k) ps)) (s, g)) a)) \<and>
            decorations (fst (run (map (Update a) ps) (s, g)) a) (ps ! k) =
              decorations (fst (run (map (Update a) (take (Suc k) ps)) (s, g)) a) (ps ! k)) \<and>
         (\<forall>i. i \<notin> set ps \<longrightarrow>
            height (fst (run (map (Update a) ps) (s, g)) a) i = height (s a) i \<and>
            type (fst (run (map (Update a) ps) (s, g)) a) i = type (s a) i \<and>
            slope (fst (run (map (Update a) ps) (s, g)) a) i = slope (s a) i \<and>
            decorations (fst (run (map (Update a) ps) (s, g)) a) i = decorations (s a) i)"
  using update_step[of h a this g tp] run_updates_written_slots[OF assms, of _ a s g]
    run_updates_other_slots[of _ ps a s g]
  by blast

text \<open>Three updates of the foreground of the first stage, with the pointers 0, 1 and 2.\<close>

theorem update_writes_one_slot_witness:
  "distinct [0, 1, 2 :: int] \<and>
   height (fst (run (map (Update 0) [0, 1, 2]) stage1) 0) 1 =
     Some (activeHeight (fst (run (map (Update 0) [0, 1]) stage1) 0)) \<and>
   type (fst (run (map (Update 0) [0, 1, 2]) stage1) 0) 1 =
     Some (activeType (fst (run (map (Update 0) [0, 1]) stage1) 0)) \<and>
   height (fst (run (map (Update 0) [0, 1, 2]) stage1) 0) 3 = height (fst stage1 0) 3"
proof -
  have d: "distinct [0, 1, 2 :: int]" by simp
  note t = update_writes_one_slot[where ps = "[0, 1, 2]" and h = "fst stage1" and a = 0 and this = "fst stage1 0"
                and g = "snd stage1" and tp = 0 and s = "fst stage1", OF d]
  from t have w: "\<forall>k < length [0, 1, 2 :: int].
            height (fst (run (map (Update 0) [0, 1, 2]) (fst stage1, snd stage1)) 0) ([0, 1, 2] ! k) =
              Some (activeHeight (fst (run (map (Update 0) (take (Suc k) [0, 1, 2])) (fst stage1, snd stage1)) 0)) \<and>
            type (fst (run (map (Update 0) [0, 1, 2]) (fst stage1, snd stage1)) 0) ([0, 1, 2] ! k) =
              Some (activeType (fst (run (map (Update 0) (take (Suc k) [0, 1, 2])) (fst stage1, snd stage1)) 0)) \<and>
            slope (fst (run (map (Update 0) [0, 1, 2]) (fst stage1, snd stage1)) 0) ([0, 1, 2] ! k) =
              Some (activeSlope (fst (run (map (Update 0) (take (Suc k) [0, 1, 2])) (fst stage1, snd stage1)) 0)) \<and>
            decorations (fst (run (map (Update 0) [0, 1, 2]) (fst stage1, snd stage1)) 0) ([0, 1, 2] ! k) =
              decorations (fst (run (map (Update 0) (take (Suc k) [0, 1, 2])) (fst stage1, snd stage1)) 0) ([0, 1, 2] ! k)"
    by (rule conjunct1[OF conjunct2])
  from t have o: "\<forall>i. i \<notin> set [0, 1, 2 :: int] \<longrightarrow>
            height (fst (run (map (Update 0) [0, 1, 2]) (fst stage1, snd stage1)) 0) i = height (fst stage1 0) i \<and>
            type (fst (run (map (Update 0) [0, 1, 2]) (fst stage1, snd stage1)) 0) i = type (fst stage1 0) i \<and>
            slope (fst (run (map (Update 0) [0, 1, 2]) (fst stage1, snd stage1)) 0) i = slope (fst stage1 0) i \<and>
            decorations (fst (run (map (Update 0) [0, 1, 2]) (fst stage1, snd stage1)) 0) i = decorations (fst stage1 0) i"
    by (rule conjunct2[OF conjunct2])
  have k: "(1::nat) < length [0, 1, 2 :: int]" by simp
  have n: "(3::int) \<notin> set [0, 1, 2]" by simp
  have t2: "take (Suc 1) [0, 1, 2 :: int] = [0, 1]" "[0, 1, 2 :: int] ! 1 = 1" by simp_all
  from w[rule_format, OF k] o[rule_format, OF n] d show ?thesis
    by (simp only: t2 prod.collapse)
qed

subsection \<open>The height range\<close>

lemma unitDraws_randomSlope: "unitDraws g \<Longrightarrow> unitDraws (snd (randomSlope mn mx l g))"
  by (simp add: randomSlope_def split_beta Let_def sampleUniform_unitDraws unitDraws_random)

lemma unitDraws_updateSlope: "unitDraws g \<Longrightarrow> unitDraws (snd (updateSlope h a l g))"
  by (simp add: updateSlope_def split_beta Let_def unitDraws_randomSlope)

lemma unitDraws_typeTransition: "unitDraws g \<Longrightarrow> unitDraws (snd (typeTransition mn mx l g))"
  by (simp add: typeTransition_def split_beta Let_def sampleUniform_unitDraws unitDraws_random)

lemma unitDraws_updateType: "unitDraws g \<Longrightarrow> unitDraws (snd (updateType h a l g))"
  by (simp add: updateType_def split_beta Let_def unitDraws_typeTransition)

lemma unitDraws_updateDecorations: "unitDraws g \<Longrightarrow> unitDraws (snd (snd (updateDecorations h a tp l g)))"
  by (simp add: updateDecorations_def split_beta Let_def sampleUniform_unitDraws)

lemma unitDraws_update: "unitDraws g \<Longrightarrow> unitDraws (snd (update h a tp l g))"
  by (simp add: update_unfold Let_def unitDraws_updateDecorations unitDraws_updateType unitDraws_updateSlope)

lemma unitDraws_exec: "unitDraws g \<Longrightarrow> unitDraws (snd (exec c (h, g)))"
  by (cases c) (simp_all add: split_beta unitDraws_update)

lemma randomSlope_fields:
  "activeHeight (fst (randomSlope mn mx l g)) = activeHeight l"
  "typeWait (fst (randomSlope mn mx l g)) = typeWait l + 1"
  "layerType (fst (randomSlope mn mx l g)) = layerType l"
  "activeType (fst (randomSlope mn mx l g)) = activeType l"
  "lastSlope (fst (randomSlope mn mx l g)) = lastSlope l"
  "activeSlope (fst (randomSlope mn mx l g)) \<noteq> Slope_None"
  "slopeDuration (fst (randomSlope mn mx l g)) = min (typeWait l - 1) (fst (sampleUniform 1 2 g))"
  by (simp_all add: randomSlope_def split_beta Let_def)

lemma randomSlope_fits:
  assumes "mn \<le> activeHeight l" "activeHeight l \<le> mx" "mx - mn = 4"
    and "d = slopeDuration (fst (randomSlope mn mx l g))" "1 \<le> d" "d \<le> 2"
  shows "mn \<le> activeHeight l - slopeNum (activeSlope (fst (randomSlope mn mx l g))) * d \<and>
         activeHeight l - slopeNum (activeSlope (fst (randomSlope mn mx l g))) * d \<le> mx"
proof -
  have d: "d = min (typeWait l - 1) (fst (sampleUniform 1 2 g))"
    using assms(4) by (simp add: randomSlope_fields)
  show ?thesis
    using assms(1,2,3,5,6) unfolding d
    by (auto simp add: randomSlope_def split_beta Let_def clamp_def)
qed

lemma slopeNum_cases: "slopeNum s = -1 \<or> slopeNum s = 0 \<or> slopeNum s = 1"
  by (cases s) simp_all

lemma foreground_no_coupledRule: "layerType l = Foreground \<Longrightarrow> \<not> coupledRule h a l"
  by (simp add: coupledRule_def)

lemma foreground_range: "layerType l = Foreground \<Longrightarrow> getHeightRange h a l = (1, 5)"
  by (simp add: getHeightRange_def)

lemma updateSlope_foreground:
  assumes "foregroundInv l" "unitDraws g"
  shows "foregroundInv (fst (updateSlope h a l g)) \<and>
         (activeSlope (fst (updateSlope h a l g)) \<noteq> Slope_None \<and>
          2 \<le> slopeDuration (fst (updateSlope h a l g)) \<longrightarrow> 3 \<le> typeWait (fst (updateSlope h a l g)))"
proof -
  let ?t = "slopeTick l"
  have fg: "layerType ?t = Foreground" using assms(1) by (simp add: foregroundInv_def slopeTick_def Let_def)
  have ht: "activeHeight ?t = activeHeight l" "typeWait ?t = typeWait l"
    by (simp_all add: slopeTick_def Let_def)
  have hl: "1 \<le> activeHeight l" "activeHeight l \<le> 5" using assms(1) by (simp_all add: foregroundInv_def)
  show ?thesis
  proof (cases "activeType ?t = Surface \<and> 2 \<le> typeWait ?t \<and> slopeWait ?t - 1 \<le> 0")
    case True
    let ?lw = "?t\<lparr> slopeWait := slopeWait ?t - 1 \<rparr>"
    let ?r = "fst (randomSlope 1 5 ?lw g)"
    have u: "fst (updateSlope h a l g) = ?r\<lparr> activeHeight := activeHeight ?r - slopeNum (activeSlope ?r) \<rparr>"
      using True fg by (simp add: updateSlope_def foreground_no_coupledRule foreground_range Let_def split_beta)
    have su: "1 \<le> fst (sampleUniform 1 2 g) \<and> fst (sampleUniform 1 2 g) \<le> 2"
      using sampleUniform_range[OF assms(2), of 1 2] by simp
    have d: "1 \<le> slopeDuration ?r" "slopeDuration ?r \<le> 2"
      using su True by (auto simp add: randomSlope_fields ht)
    have fit: "1 \<le> activeHeight l - slopeNum (activeSlope ?r) * slopeDuration ?r \<and>
               activeHeight l - slopeNum (activeSlope ?r) * slopeDuration ?r \<le> 5"
      using randomSlope_fits[of 1 ?lw 5 "slopeDuration ?r" g] hl d by (simp add: ht)
    have tw: "typeWait ?r = typeWait l + 1" "layerType ?r = Foreground" "activeHeight ?r = activeHeight l"
      using fg by (simp_all add: randomSlope_fields ht)
    have "slopeDuration ?r = 1 \<or> slopeDuration ?r = 2" using d by arith
    then have "foregroundInv (?r\<lparr> activeHeight := activeHeight ?r - slopeNum (activeSlope ?r) \<rparr>)"
      using fit hl slopeNum_cases[of "activeSlope ?r"] tw
      by (auto simp add: foregroundInv_def)
    moreover have "3 \<le> typeWait ?r" using True tw ht by simp
    ultimately show ?thesis by (simp add: u)
  next
    case False
    have "activeHeight (fst (updateSlope h a l g)) = activeHeight ?t - slopeNum (activeSlope ?t) \<and>
          activeSlope (fst (updateSlope h a l g)) = activeSlope ?t \<and>
          slopeDuration (fst (updateSlope h a l g)) = slopeDuration ?t \<and>
          layerType (fst (updateSlope h a l g)) = Foreground"
      using False fg
      by (auto simp add: updateSlope_def foreground_no_coupledRule foreground_range Let_def split_beta)
    moreover have "activeSlope ?t = (if slopeDuration l - 1 \<le> 0 then Slope_None else activeSlope l)"
      "slopeDuration ?t = slopeDuration l - 1"
      by (simp_all add: slopeTick_def Let_def)
    ultimately have "activeHeight (fst (updateSlope h a l g)) =
            activeHeight l - slopeNum (if slopeDuration l - 1 \<le> 0 then Slope_None else activeSlope l) \<and>
          activeSlope (fst (updateSlope h a l g)) = (if slopeDuration l - 1 \<le> 0 then Slope_None else activeSlope l) \<and>
          slopeDuration (fst (updateSlope h a l g)) = slopeDuration l - 1 \<and>
          layerType (fst (updateSlope h a l g)) = Foreground"
      by (simp add: ht)
    then show ?thesis
      using assms(1) by (auto simp add: foregroundInv_def split: if_splits)
  qed
qed

lemma updateType_foreground:
  assumes "foregroundInv l" "unitDraws g"
    and "activeSlope l \<noteq> Slope_None \<and> 2 \<le> slopeDuration l \<longrightarrow> 3 \<le> typeWait l"
  shows "foregroundInv (fst (updateType h a l g))"
proof -
  have fg: "layerType l = Foreground" and hl: "1 \<le> activeHeight l" "activeHeight l \<le> 5"
    using assms(1) by (simp_all add: foregroundInv_def)
  have keep: "activeSlope (fst (updateType h a l g)) = activeSlope l"
    "slopeDuration (fst (updateType h a l g)) = slopeDuration l"
    "layerType (fst (updateType h a l g)) = Foreground"
    using fg by (simp_all add: updateType_frame)
  show ?thesis
  proof (cases "typeWait l - 1 \<le> 0 \<and> lastSlope l = Slope_None")
    case False
    then have "activeHeight (fst (updateType h a l g)) = activeHeight l"
      by (auto simp add: updateType_def Let_def split_beta)
    then show ?thesis using assms(1) keep by (simp add: foregroundInv_def)
  next
    case True
    then have flat: "\<not> (activeSlope l \<noteq> Slope_None \<and> 2 \<le> slopeDuration l)"
      using assms(3) by auto
    have rng: "max 1 (activeHeight l - 2) \<le> min 5 (activeHeight l + 2)" using hl by simp
    from sampleUniform_range[OF unitDraws_random[OF assms(2)] rng]
    have jump: "1 \<le> fst (sampleUniform (max 1 (activeHeight l - 2)) (min 5 (activeHeight l + 2)) (snd (random g)))"
      "fst (sampleUniform (max 1 (activeHeight l - 2)) (min 5 (activeHeight l + 2)) (snd (random g))) \<le> 5"
      by simp_all
    have "1 \<le> activeHeight (fst (updateType h a l g)) \<and> activeHeight (fst (updateType h a l g)) \<le> 5"
      using True fg hl jump
      by (simp add: updateType_def typeTransition_def foreground_range Let_def split_beta GAP_JUMP_MAX_def)
    then show ?thesis using flat keep by (auto simp add: foregroundInv_def)
  qed
qed

lemma update_foreground:
  assumes "foregroundInv l" "unitDraws g"
  shows "foregroundInv (fst (update h a tp l g))"
proof -
  let ?s1 = "updateSlope h a l g"
  let ?s2 = "updateType h a (fst ?s1) (snd ?s1)"
  from updateSlope_foreground[OF assms, of h a]
  have 1: "foregroundInv (fst ?s1)"
    and 2: "activeSlope (fst ?s1) \<noteq> Slope_None \<and> 2 \<le> slopeDuration (fst ?s1) \<longrightarrow> 3 \<le> typeWait (fst ?s1)"
    by simp_all
  have "foregroundInv (fst ?s2)"
    using 1 unitDraws_updateSlope[OF assms(2)] 2 by (rule updateType_foreground)
  then show ?thesis
    by (simp add: foregroundInv_def update_fields updateType_frame update_unfold Let_def updateDecorations_frame)
qed

lemma constructor_foreground:
  "constructor w Foreground sh g = Inr (l, g') \<Longrightarrow> foregroundInv l"
  by (auto simp add: constructor_def foregroundInv_def split_beta Let_def split: sum.splits)

lemma exec_foreground:
  assumes "foregroundInv (h a)" "unitDraws g"
  shows "foregroundInv (fst (exec c (h, g)) a)"
proof (cases c)
  case (Update b tp)
  show ?thesis
  proof (cases "b = a")
    case True
    then show ?thesis using Update update_foreground[OF assms, of h a tp] by (simp add: split_beta)
  next
    case False
    then show ?thesis using Update assms(1) by (simp add: split_beta)
  qed
next
  case (SetReferenceLayer b r)
  then show ?thesis using assms(1) by (auto simp add: setReferenceLayer_def foregroundInv_def)
qed

lemma run_foreground:
  "foregroundInv (h a) \<Longrightarrow> unitDraws g \<Longrightarrow> foregroundInv (fst (run cs (h, g)) a)"
proof (induction cs arbitrary: h g)
  case Nil
  then show ?case by simp
next
  case (Cons c cs)
  obtain h' g' where e: "exec c (h, g) = (h', g')" by (cases "exec c (h, g)")
  have "foregroundInv (h' a)" using exec_foreground[of h a g c] Cons.prems e by simp
  moreover have "unitDraws g'" using unitDraws_exec[of g c h] Cons.prems(2) e by simp
  ultimately show ?case using Cons.IH[of h' g'] e by simp
qed

lemma slopeTick_fields:
  "activeHeight (slopeTick l) = activeHeight l"
  "activeType (slopeTick l) = activeType l"
  "typeWait (slopeTick l) = typeWait l"
  "layerType (slopeTick l) = layerType l"
  "ref (slopeTick l) = ref l"
  "lastSlope (slopeTick l) = activeSlope l"
  "activeSlope (slopeTick l) = (if slopeDuration l - 1 \<le> 0 then Slope_None else activeSlope l)"
  by (simp_all add: slopeTick_def Let_def)

lemma updateSlope_off_surface:
  assumes "activeType l \<noteq> Surface"
  shows "updateSlope h a l g =
           ((slopeTick l)\<lparr> activeHeight := activeHeight l - slopeNum (activeSlope (slopeTick l)) \<rparr>, g)"
  using assms by (simp add: updateSlope_def coupledRule_def slopeTick_fields Let_def split_beta)

lemma getHeightRange_background:
  assumes "layerType l = Background" "ref l \<noteq> Some a"
  shows "getHeightRange h a l =
           (2 + (case ref l of None \<Rightarrow> 0 | Some r \<Rightarrow> activeHeight (h r)),
            4 + (case ref l of None \<Rightarrow> 0 | Some r \<Rightarrow> activeHeight (h r)))"
  using assms by (auto simp add: getHeightRange_def refObj_def split: option.splits)

lemma update_background_surfaces:
  assumes "layerType this = Background" "activeType this \<noteq> Surface" "typeWait this \<le> 1"
    and "activeSlope this = Slope_None" "ref this \<noteq> Some a" "unitDraws g"
  shows "activeType (fst (update h a tp this g)) = Surface \<and>
         2 + (case ref this of None \<Rightarrow> 0 | Some r \<Rightarrow> activeHeight (h r))
           \<le> activeHeight (fst (update h a tp this g)) \<and>
         activeHeight (fst (update h a tp this g))
           \<le> 4 + (case ref this of None \<Rightarrow> 0 | Some r \<Rightarrow> activeHeight (h r))"
proof -
  let ?rh = "case ref this of None \<Rightarrow> 0 | Some r \<Rightarrow> activeHeight (h r)"
  let ?l1 = "(slopeTick this)\<lparr> activeHeight := activeHeight this - slopeNum (activeSlope (slopeTick this)) \<rparr>"
  have s: "updateSlope h a this g = (?l1, g)"
    using assms(2) by (rule updateSlope_off_surface)
  have f: "layerType ?l1 = Background" "activeType ?l1 \<noteq> Surface" "typeWait ?l1 \<le> 1"
    "lastSlope ?l1 = Slope_None" "ref ?l1 = ref this"
    using assms(1-4) by (simp_all add: slopeTick_fields)
  have r: "getHeightRange h a ?l1 = (2 + ?rh, 4 + ?rh)"
    using getHeightRange_background[of ?l1 a h] f(1) f(5) assms(5) by simp
  have "2 + ?rh \<le> 4 + ?rh" by simp
  from sampleUniform_range[OF assms(6) this]
  have u: "2 + ?rh \<le> fst (sampleUniform (2 + ?rh) (4 + ?rh) g)"
    "fst (sampleUniform (2 + ?rh) (4 + ?rh) g) \<le> 4 + ?rh" by simp_all
  have "activeType (fst (updateType h a ?l1 g)) = Surface \<and>
        activeHeight (fst (updateType h a ?l1 g)) = fst (sampleUniform (2 + ?rh) (4 + ?rh) g)"
    using f(1-4) by (simp add: updateType_def typeTransition_def r Let_def split_beta)
  then show ?thesis using u by (simp add: update_fields s)
qed

text \<open>
  Claim C2, as amended. The height of a foreground layer is within its range, 1 to 5,
  after its construction and after every call on the store, the random results being in
  \<open>[0, 1)\<close>. A background layer that is not on a surface and whose type wait has run out
  turns into a surface with a height drawn from its range, 2 to 4 above the current height
  of its reference (2 to 4 without one). That range is not kept on its later updates.
\<close>

theorem foreground_height_in_range:
  assumes "constructor w Foreground sh g0 = Inr (h a, g1)" and "unitDraws g"
    and "layerType this = Background" "activeType this \<noteq> Surface" "typeWait this \<le> 1"
    and "activeSlope this = Slope_None" "ref this \<noteq> Some b"
  shows "MIN_HEIGHT Foreground \<le> activeHeight (fst (run cs (h, g)) a) \<and>
         activeHeight (fst (run cs (h, g)) a) \<le> MAX_HEIGHT Foreground \<and>
         activeType (fst (update h' b tp this g)) = Surface \<and>
         MIN_HEIGHT Background + (case ref this of None \<Rightarrow> 0 | Some r \<Rightarrow> activeHeight (h' r))
           \<le> activeHeight (fst (update h' b tp this g)) \<and>
         activeHeight (fst (update h' b tp this g))
           \<le> MAX_HEIGHT Background + (case ref this of None \<Rightarrow> 0 | Some r \<Rightarrow> activeHeight (h' r))"
proof -
  have "foregroundInv (h a)" using assms(1) by (rule constructor_foreground)
  then have "foregroundInv (fst (run cs (h, g)) a)" using assms(2) by (rule run_foreground)
  then have "1 \<le> activeHeight (fst (run cs (h, g)) a) \<and> activeHeight (fst (run cs (h, g)) a) \<le> 5"
    by (simp add: foregroundInv_def)
  with update_background_surfaces[OF assms(3-7) assms(2), of h' tp] show ?thesis by simp
qed

text \<open>
  Claim C2 as stated fails: after five tile steps of the second stage the foreground has
  descended to the height 1, so that the background's range is 3 to 5, and the background,
  which has had no slope, is still at the height 6 at which it was drawn.
\<close>

theorem background_height_leaves_range:
  "layerType (fst stage2_after5 1) = Background \<and>
   ref (fst stage2_after5 1) = Some 0 \<and>
   layerType (fst stage2_after5 0) = Foreground \<and>
   activeHeight (fst stage2_after5 0) = 1 \<and>
   getHeightRange (fst stage2_after5) 1 (fst stage2_after5 1) = (3, 5) \<and>
   activeHeight (fst stage2_after5 1) = 6 \<and>
   height (fst stage2_after5 1) 4 = Some 6"
  by (simp add: stage2_after5_def stage2_def run_defs)

text \<open>The first stage: five tile steps for the foreground, and the first update of the background.\<close>

theorem foreground_height_in_range_witness:
  "unitDraws (snd stage1) \<and>
   layerType (fst stage1 1) = Background \<and> activeType (fst stage1 1) \<noteq> Surface \<and>
   typeWait (fst stage1 1) \<le> 1 \<and> activeSlope (fst stage1 1) = Slope_None \<and>
   ref (fst stage1 1) \<noteq> Some 1 \<and>
   1 \<le> activeHeight (fst (run (ticks [0, 1, 2, 3, 4]) stage1) 0) \<and>
   activeHeight (fst (run (ticks [0, 1, 2, 3, 4]) stage1) 0) \<le> 5 \<and>
   activeType (fst (update (fst stage1) 1 0 (fst stage1 1) (snd stage1))) = Surface \<and>
   2 + activeHeight (fst stage1 0) \<le> activeHeight (fst (update (fst stage1) 1 0 (fst stage1 1) (snd stage1))) \<and>
   activeHeight (fst (update (fst stage1) 1 0 (fst stage1 1) (snd stage1))) \<le> 4 + activeHeight (fst stage1 0)"
proof -
  let ?g0 = "listDraws [0, 0, 1/2, 9/10, 1/10, 0, 1/4, 1/4, 1/4, 2/5, 0, 1/10, 9/10, 1/4, 1/10, 1/5, 1/4] (9/10)"
  have c: "constructor 8 Foreground 0 ?g0 = Inr (fst stage1 0, snd (projr (constructor 8 Foreground 0 ?g0)))"
    by (simp add: stage1_def run_defs)
  have u: "unitDraws (snd stage1)"
    by (simp add: stage1_def run_defs unitDraws_def nth_Cons')
  have b: "layerType (fst stage1 1) = Background" "activeType (fst stage1 1) \<noteq> Surface"
    "typeWait (fst stage1 1) \<le> 1" "activeSlope (fst stage1 1) = Slope_None"
    "ref (fst stage1 1) \<noteq> Some 1" "ref (fst stage1 1) = Some 0"
    by (simp_all add: stage1_def run_defs)
  from foreground_height_in_range[where h = "fst stage1" and a = 0 and g = "snd stage1" and this = "fst stage1 1"
              and b = 1 and cs = "ticks [0, 1, 2, 3, 4]" and h' = "fst stage1" and tp = 0, OF c u b(1-5)]
       u b
  show ?thesis by simp
qed

subsection \<open>When the coupled rule fires\<close>

lemma slopeTick_slopeWait: "slopeWait (slopeTick l) = slopeWait l"
  by (simp add: slopeTick_def Let_def)

lemma coupledRule_iff:
  assumes "layerType this = Background" "activeType this = Surface" "ref this = Some r" "r \<noteq> a"
  shows "coupledRule h a (slopeTick this) \<longleftrightarrow>
           (activeSlope (h r) = Up \<and> activeHeight this - activeHeight (h r) \<le> 2) \<or>
           activeHeight this - activeHeight (h r) \<le> 1"
  using assms by (simp add: coupledRule_def refObj_def slopeTick_fields Let_def)

lemma updateSlope_uncoupled:
  assumes "\<not> coupledRule h a (slopeTick this)" "getHeightRange h a (slopeTick this) = (mn, mx)"
  shows "activeSlope (fst (updateSlope h a this g)) =
           (if activeType this = Surface \<and> 2 \<le> typeWait this \<and> slopeWait this \<le> 1
            then activeSlope (fst (randomSlope mn mx ((slopeTick this)\<lparr> slopeWait := slopeWait this - 1 \<rparr>) g))
            else if slopeDuration this \<le> 1 then Slope_None else activeSlope this) \<and>
         activeHeight (fst (updateSlope h a this g)) =
           activeHeight this - slopeNum (activeSlope (fst (updateSlope h a this g)))"
  using assms
  by (auto simp add: updateSlope_def Let_def split_beta slopeTick_fields slopeTick_slopeWait
        randomSlope_fields)

text \<open>
  Claim C3, as amended. For a background layer on a surface with a reference layer, the
  coupled rule fires exactly when the layer's height is at most 1 above the reference's,
  or at most 2 while the reference goes up. Then the layer ascends in that update: its
  slope and the written slope are ascending and its height is one more. At a larger
  difference nothing is forced: the slope after the update is the random slope when one
  starts in this update (the type wait at least 2 and the slope wait run out), else the
  running slope when it has a tile left, else flat; and the height moves by that slope.
  (The claim has the test the other way round: "exceeds by more than".)
\<close>

theorem coupled_rule_begins_ascent:
  assumes "layerType this = Background" "activeType this = Surface" "ref this = Some r" "r \<noteq> a"
  shows "(coupledRule h a (slopeTick this) \<longleftrightarrow>
            (activeSlope (h r) = Up \<and> activeHeight this - activeHeight (h r) \<le> 2) \<or>
            activeHeight this - activeHeight (h r) \<le> 1) \<and>
         (if (activeSlope (h r) = Up \<and> activeHeight this - activeHeight (h r) \<le> 2) \<or>
             activeHeight this - activeHeight (h r) \<le> 1
          then activeSlope (fst (update h a tp this g)) = Up \<and>
               slope (fst (update h a tp this g)) tp = Some Up \<and>
               activeHeight (fst (update h a tp this g)) = activeHeight this + 1
          else activeSlope (fst (update h a tp this g)) =
                 (if 2 \<le> typeWait this \<and> slopeWait this \<le> 1
                  then activeSlope (fst (randomSlope (2 + activeHeight (h r)) (4 + activeHeight (h r))
                                           ((slopeTick this)\<lparr> slopeWait := slopeWait this - 1 \<rparr>) g))
                  else if slopeDuration this \<le> 1 then Slope_None else activeSlope this) \<and>
               activeHeight (fst (update h a tp this g)) =
                 activeHeight this - slopeNum (activeSlope (fst (update h a tp this g))))"
proof -
  note iff = coupledRule_iff[OF assms, of h]
  have bs: "layerType (fst (updateSlope h a this g)) = Background"
           "activeType (fst (updateSlope h a this g)) = Surface"
    using assms(1,2) by (simp_all add: updateSlope_frame)
  have hs: "activeHeight (fst (update h a tp this g)) = activeHeight (fst (updateSlope h a this g))"
    using bs by (simp add: update_fields updateType_background_surface_height)
  have ss: "activeSlope (fst (update h a tp this g)) = activeSlope (fst (updateSlope h a this g))"
    by (simp add: update_fields)
  show ?thesis
  proof (cases "coupledRule h a (slopeTick this)")
    case True
    then have s: "updateSlope h a this g = (coupledSlope (slopeTick this), g)"
      by (rule updateSlope_coupled)
    have c: "activeSlope (coupledSlope (slopeTick this)) = Up"
            "activeHeight (coupledSlope (slopeTick this)) = activeHeight this + 1"
      by (simp_all add: coupledSlope_def slopeTick_def Let_def)
    have up: "activeSlope (fst (update h a tp this g)) = Up" by (simp add: ss s c)
    moreover have "activeHeight (fst (update h a tp this g)) = activeHeight this + 1"
      by (simp add: hs s c)
    moreover have "slope (fst (update h a tp this g)) tp = Some Up"
      using update_arrays(3)[of h a tp this g] up by simp
    ultimately show ?thesis using True iff by simp
  next
    case False
    have rf: "ref (slopeTick this) \<noteq> Some a" "ref (slopeTick this) = Some r"
             "layerType (slopeTick this) = Background"
      using assms by (simp_all add: slopeTick_fields)
    have g: "getHeightRange h a (slopeTick this) = (2 + activeHeight (h r), 4 + activeHeight (h r))"
      using getHeightRange_background[OF rf(3) rf(1), of h] rf(2) by simp
    have nc: "\<not> ((activeSlope (h r) = Up \<and> activeHeight this - activeHeight (h r) \<le> 2) \<or>
                 activeHeight this - activeHeight (h r) \<le> 1)"
      using False iff by simp
    have B: "activeSlope (fst (update h a tp this g)) =
                 (if 2 \<le> typeWait this \<and> slopeWait this \<le> 1
                  then activeSlope (fst (randomSlope (2 + activeHeight (h r)) (4 + activeHeight (h r))
                                           ((slopeTick this)\<lparr> slopeWait := slopeWait this - 1 \<rparr>) g))
                  else if slopeDuration this \<le> 1 then Slope_None else activeSlope this) \<and>
               activeHeight (fst (update h a tp this g)) =
                 activeHeight this - slopeNum (activeSlope (fst (update h a tp this g)))"
      using updateSlope_uncoupled[OF False g, of g] assms(2) by (simp add: hs ss)
    show ?thesis
      by (rule conjI[OF iff]) (simp only: if_not_P[OF nc], rule B)
  qed
qed

text \<open>
  Claim C3 as stated fails. In the second tile step of the first stage the background
  layer is 2 above its flat foreground reference, and its update leaves it flat at the same
  height. In the fifth tile step of the fifth stage it is 3 above its ascending reference,
  and its update leaves it flat at the same height.
\<close>

theorem no_ascent_when_far_above:
  "layerType (fst stage1_in_step1 1) = Background \<and>
   ref (fst stage1_in_step1 1) = Some 0 \<and>
   layerType (fst stage1_in_step1 0) = Foreground \<and>
   activeSlope (fst stage1_in_step1 0) = Slope_None \<and>
   activeHeight (fst stage1_in_step1 1) - activeHeight (fst stage1_in_step1 0) = 2 \<and>
   activeSlope (fst (exec (Update 1 1) stage1_in_step1) 1) = Slope_None \<and>
   activeHeight (fst (exec (Update 1 1) stage1_in_step1) 1) = activeHeight (fst stage1_in_step1 1) \<and>
   layerType (fst stage5_in_step4 1) = Background \<and>
   ref (fst stage5_in_step4 1) = Some 0 \<and>
   layerType (fst stage5_in_step4 0) = Foreground \<and>
   activeSlope (fst stage5_in_step4 0) = Up \<and>
   activeHeight (fst stage5_in_step4 1) - activeHeight (fst stage5_in_step4 0) = 3 \<and>
   activeSlope (fst (exec (Update 1 4) stage5_in_step4) 1) = Slope_None \<and>
   activeHeight (fst (exec (Update 1 4) stage5_in_step4) 1) = activeHeight (fst stage5_in_step4 1)"
proof -
  have "layerType (fst stage1_in_step1 1) = Background \<and>
   ref (fst stage1_in_step1 1) = Some 0 \<and>
   layerType (fst stage1_in_step1 0) = Foreground \<and>
   activeSlope (fst stage1_in_step1 0) = Slope_None \<and>
   activeHeight (fst stage1_in_step1 1) - activeHeight (fst stage1_in_step1 0) = 2 \<and>
   activeSlope (fst (exec (Update 1 1) stage1_in_step1) 1) = Slope_None \<and>
   activeHeight (fst (exec (Update 1 1) stage1_in_step1) 1) = activeHeight (fst stage1_in_step1 1)"
    by (simp add: stage1_in_step1_def stage1_def run_defs)
  moreover have "layerType (fst stage5_in_step4 1) = Background \<and>
   ref (fst stage5_in_step4 1) = Some 0 \<and>
   layerType (fst stage5_in_step4 0) = Foreground \<and>
   activeSlope (fst stage5_in_step4 0) = Up \<and>
   activeHeight (fst stage5_in_step4 1) - activeHeight (fst stage5_in_step4 0) = 3 \<and>
   activeSlope (fst (exec (Update 1 4) stage5_in_step4) 1) = Slope_None \<and>
   activeHeight (fst (exec (Update 1 4) stage5_in_step4) 1) = activeHeight (fst stage5_in_step4 1)"
    by (simp add: stage5_in_step4_def stage5_def run_defs)
  ultimately show ?thesis by (simp only: simp_thms)
qed

text \<open>
  In the fifth tile step of the first stage the background layer is 1 above its ascending
  reference and ascends; in the fifth tile step of the fifth stage it is 3 above its
  ascending reference, no random slope starts, and it stays flat.
\<close>

theorem coupled_rule_begins_ascent_witness:
  "layerType (fst stage1_in_step4 1) = Background \<and>
   activeType (fst stage1_in_step4 1) = Surface \<and>
   ref (fst stage1_in_step4 1) = Some 0 \<and>
   activeSlope (fst stage1_in_step4 0) = Up \<and>
   activeHeight (fst stage1_in_step4 1) - activeHeight (fst stage1_in_step4 0) = 1 \<and>
   coupledRule (fst stage1_in_step4) 1 (slopeTick (fst stage1_in_step4 1)) \<and>
   activeSlope (fst (update (fst stage1_in_step4) 1 4 (fst stage1_in_step4 1) (snd stage1_in_step4))) = Up \<and>
   slope (fst (update (fst stage1_in_step4) 1 4 (fst stage1_in_step4 1) (snd stage1_in_step4))) 4 = Some Up \<and>
   layerType (fst stage5_in_step4 1) = Background \<and>
   activeType (fst stage5_in_step4 1) = Surface \<and>
   ref (fst stage5_in_step4 1) = Some 0 \<and>
   activeSlope (fst stage5_in_step4 0) = Up \<and>
   activeHeight (fst stage5_in_step4 1) - activeHeight (fst stage5_in_step4 0) = 3 \<and>
   \<not> coupledRule (fst stage5_in_step4) 1 (slopeTick (fst stage5_in_step4 1)) \<and>
   activeSlope (fst (update (fst stage5_in_step4) 1 4 (fst stage5_in_step4 1) (snd stage5_in_step4))) = Slope_None \<and>
   activeHeight (fst (update (fst stage5_in_step4) 1 4 (fst stage5_in_step4 1) (snd stage5_in_step4))) =
     activeHeight (fst stage5_in_step4 1)"
proof -
  have a: "layerType (fst stage1_in_step4 1) = Background"
    "activeType (fst stage1_in_step4 1) = Surface"
    "ref (fst stage1_in_step4 1) = Some 0"
    "activeSlope (fst stage1_in_step4 0) = Up"
    "activeHeight (fst stage1_in_step4 1) - activeHeight (fst stage1_in_step4 0) = 1"
    by (simp_all add: stage1_in_step4_def stage1_def run_defs)
  have b: "layerType (fst stage5_in_step4 1) = Background"
    "activeType (fst stage5_in_step4 1) = Surface"
    "ref (fst stage5_in_step4 1) = Some 0"
    "activeSlope (fst stage5_in_step4 0) = Up"
    "activeHeight (fst stage5_in_step4 1) - activeHeight (fst stage5_in_step4 0) = 3"
    "typeWait (fst stage5_in_step4 1) = 3" "slopeWait (fst stage5_in_step4 1) = 8"
    "slopeDuration (fst stage5_in_step4 1) \<le> 1"
    by (simp_all add: stage5_in_step4_def stage5_def run_defs)
  have n: "(0::nat) \<noteq> 1" by simp
  note t1 = coupled_rule_begins_ascent[where this = "fst stage1_in_step4 1" and r = 0 and a = 1
      and h = "fst stage1_in_step4" and tp = 4 and g = "snd stage1_in_step4", OF a(1) a(2) a(3) n]
  note t2 = coupled_rule_begins_ascent[where this = "fst stage5_in_step4 1" and r = 0 and a = 1
      and h = "fst stage5_in_step4" and tp = 4 and g = "snd stage5_in_step4", OF b(1) b(2) b(3) n]
  from t1 a have 1: "coupledRule (fst stage1_in_step4) 1 (slopeTick (fst stage1_in_step4 1)) \<and>
     activeSlope (fst (update (fst stage1_in_step4) 1 4 (fst stage1_in_step4 1) (snd stage1_in_step4))) = Up \<and>
     slope (fst (update (fst stage1_in_step4) 1 4 (fst stage1_in_step4 1) (snd stage1_in_step4))) 4 = Some Up"
    by simp
  from t2 b have 2: "\<not> coupledRule (fst stage5_in_step4) 1 (slopeTick (fst stage5_in_step4 1)) \<and>
     activeSlope (fst (update (fst stage5_in_step4) 1 4 (fst stage5_in_step4 1) (snd stage5_in_step4))) = Slope_None \<and>
     activeHeight (fst (update (fst stage5_in_step4) 1 4 (fst stage5_in_step4 1) (snd stage5_in_step4))) =
       activeHeight (fst stage5_in_step4 1)"
    by simp
  from 1 2 a b show ?thesis by simp
qed

subsection \<open>Slopes and surfaces\<close>

lemma updateType_waiting:
  "0 < typeWait l - 1 \<or> lastSlope l \<noteq> Slope_None \<Longrightarrow> activeType (fst (updateType h a l g)) = activeType l"
  by (auto simp add: updateType_def Let_def split_beta)

lemma update_slope_on_surface:
  assumes "layerType l = Foreground \<or> ref l = None"
    and "activeSlope l \<noteq> Slope_None \<longrightarrow> activeType l = Surface"
  shows "activeSlope (fst (update h a tp l g)) \<noteq> Slope_None \<longrightarrow>
         activeType (fst (update h a tp l g)) = Surface"
proof -
  let ?t = "slopeTick l"
  have nc: "\<not> coupledRule h a ?t"
    using assms(1) by (auto simp add: coupledRule_def refObj_def slopeTick_fields)
  show ?thesis
  proof (cases "activeType ?t = Surface \<and> 2 \<le> typeWait ?t \<and> slopeWait ?t - 1 \<le> 0")
    case True
    let ?lw = "?t\<lparr> slopeWait := slopeWait ?t - 1 \<rparr>"
    obtain mn mx where r: "getHeightRange h a ?t = (mn, mx)" by (cases "getHeightRange h a ?t")
    let ?r = "fst (randomSlope mn mx ?lw g)"
    have u: "fst (updateSlope h a l g) = ?r\<lparr> activeHeight := activeHeight ?r - slopeNum (activeSlope ?r) \<rparr>"
      using True nc by (simp add: updateSlope_def r Let_def split_beta)
    have "0 < typeWait (fst (updateSlope h a l g)) - 1" "activeType (fst (updateSlope h a l g)) = Surface"
      using True by (simp_all add: u randomSlope_fields slopeTick_fields)
    then show ?thesis by (simp add: update_fields updateType_waiting)
  next
    case False
    have "activeSlope (fst (updateSlope h a l g)) = activeSlope ?t"
      using False nc by (auto simp add: updateSlope_def Let_def split_beta)
    moreover have "lastSlope (fst (updateSlope h a l g)) = activeSlope l"
      "activeType (fst (updateSlope h a l g)) = activeType l"
      by (simp_all add: updateSlope_frame)
    ultimately show ?thesis using assms(2)
      by (auto simp add: update_fields updateType_waiting slopeTick_fields split: if_splits)
  qed
qed

text \<open>
  Claim C1 fails on the code. After seven tile steps of the first stage the background
  layer, in the update in which the coupled rule fired while its type wait had already run
  out, has left the surface with an ascending slope: the active slope and the slope
  written at slot 6 are ascending, the active type and the type written there are empty.
  (Without the coupled rule, in a foreground layer or a layer without a reference, a slope
  is only ever on a surface: \<open>update_slope_on_surface\<close>.)
\<close>

theorem coupled_slope_on_gap_tile:
  "layerType (fst stage1_after7 1) = Background \<and>
   ref (fst stage1_after7 1) = Some 0 \<and>
   layerType (fst stage1_after7 0) = Foreground \<and>
   activeSlope (fst stage1_after7 1) = Up \<and>
   activeType (fst stage1_after7 1) = Tile_None \<and>
   slope (fst stage1_after7 1) 6 = Some Up \<and>
   type (fst stage1_after7 1) 6 = Some Tile_None"
  by (simp add: stage1_after7_def stage1_def run_defs)

end
